theory Spec2Isabelle
  imports Main
begin

section \<open>Python values, exceptions and the string formatting operator\<close>

text \<open>
  The module \<^verbatim>\<open>barman/output.py\<close> is dynamically typed. The values that reach it are
  embedded in one datatype. \<open>PExcClass e\<close> is a callable that, applied to a message,
  builds the exception \<open>e\<close> (an exception class); \<open>PExc e\<close> is an exception instance;
  \<open>PObj attrs\<close> is any other object, given by its data attributes (a method without
  arguments is the attribute of that name holding what the call returns).

  \<open>Unmodelled\<close> is not a Python exception: it is the outcome of the embedding at an
  input whose Python behaviour lies outside the fragment embedded here (the \<open>repr\<close> of
  a container, a conversion flag of the formatting operator, an argument that is not of the
  type its docstring gives).
\<close>

datatype py_exn =
    TypeError
  | ValueError
  | KeyError
  | AttributeError
  | SystemExit int
  | UserError string
  | Unmodelled

datatype pyval =
    PNone
  | PBool bool
  | PInt int
  | PStr string
  | PTuple "pyval list"
  | PList "pyval list"
  | PDict "(string \<times> pyval) list"
  | PObj "(string \<times> pyval) list"
  | PExcClass py_exn
  | PExc py_exn

type_synonym kwargs = "(string \<times> pyval) list"

fun py_truthy :: "pyval \<Rightarrow> bool" where
  "py_truthy PNone = False"
| "py_truthy (PBool b) = b"
| "py_truthy (PInt i) = (i \<noteq> 0)"
| "py_truthy (PStr s) = (s \<noteq> [])"
| "py_truthy (PTuple xs) = (xs \<noteq> [])"
| "py_truthy (PList xs) = (xs \<noteq> [])"
| "py_truthy (PDict d) = (d \<noteq> [])"
| "py_truthy (PObj a) = True"
| "py_truthy (PExcClass e) = True"
| "py_truthy (PExc e) = True"

definition digit_char :: "nat \<Rightarrow> char" where
  "digit_char d = ''0123456789'' ! d"

fun show_nat :: "nat \<Rightarrow> string" where
  "show_nat n = (if n < 10 then [digit_char n] else show_nat (n div 10) @ [digit_char (n mod 10)])"

declare show_nat.simps [simp del]

definition show_int :: "int \<Rightarrow> string" where
  "show_int i = (if i < 0 then CHR ''-'' # show_nat (nat (- i)) else show_nat (nat i))"

text \<open>\<open>str(v)\<close>, as the conversion \<open>%s\<close> applies it.\<close>

fun py_str :: "pyval \<Rightarrow> py_exn + string" where
  "py_str PNone = Inr ''None''"
| "py_str (PBool b) = Inr (if b then ''True'' else ''False'')"
| "py_str (PInt i) = Inr (show_int i)"
| "py_str (PStr s) = Inr s"
| "py_str v = Inl Unmodelled"

text \<open>The integer the conversion \<open>%d\<close> prints.\<close>

fun py_int_str :: "pyval \<Rightarrow> py_exn + string" where
  "py_int_str (PInt i) = Inr (show_int i)"
| "py_int_str (PBool b) = Inr (if b then ''1'' else ''0'')"
| "py_int_str (PObj a) = Inl Unmodelled"
| "py_int_str v = Inl TypeError"

definition prepend :: "string \<Rightarrow> py_exn + string \<Rightarrow> py_exn + string" where
  "prepend s r = (case r of Inl e \<Rightarrow> Inl e | Inr t \<Rightarrow> Inr (s @ t))"

definition then_prepend :: "py_exn + string \<Rightarrow> py_exn + string \<Rightarrow> py_exn + string" where
  "then_prepend r1 r2 = (case r1 of Inl e \<Rightarrow> Inl e | Inr s \<Rightarrow> prepend s r2)"

text \<open>
  \<open>template % (a1, ..., an)\<close>: the template is read from the left; \<open>%%\<close> is a percent
  sign, \<open>%s\<close> and \<open>%d\<close> take the next argument, a template ending in \<open>%\<close> is the
  ValueError "incomplete format", a key \<open>%(k)\<close> is the TypeError "format requires a
  mapping", too few arguments is a TypeError, arguments left at the end is the
  TypeError "not all arguments converted". Flags, widths and the other conversion
  characters are outside the fragment.
\<close>

fun fmt_tuple :: "string \<Rightarrow> pyval list \<Rightarrow> py_exn + string" where
  "fmt_tuple [] [] = Inr []"
| "fmt_tuple [] (a # as) = Inl TypeError"
| "fmt_tuple [c] args = (if c = CHR ''%'' then Inl ValueError else prepend [c] (fmt_tuple [] args))"
| "fmt_tuple (c # d # cs) args =
     (if c \<noteq> CHR ''%'' then prepend [c] (fmt_tuple (d # cs) args)
      else if d = CHR ''%'' then prepend ''%'' (fmt_tuple cs args)
      else if d = CHR ''s'' then
        (case args of [] \<Rightarrow> Inl TypeError
         | a # as \<Rightarrow> then_prepend (py_str a) (fmt_tuple cs as))
      else if d = CHR ''d'' then
        (case args of [] \<Rightarrow> Inl TypeError
         | a # as \<Rightarrow> then_prepend (py_int_str a) (fmt_tuple cs as))
      else if d = CHR ''('' then Inl TypeError
      else Inl Unmodelled)"

text \<open>
  \<open>template % mapping\<close>: \<open>%(k)s\<close> and \<open>%(k)d\<close> look the key up (KeyError when it is
  missing); a mapping is never "not all converted". A conversion without a key would
  print the mapping itself and is outside the fragment, as is a key holding a
  parenthesis.
\<close>

fun split_key :: "string \<Rightarrow> (string \<times> string) option" where
  "split_key [] = None"
| "split_key (c # cs) =
     (if c = CHR '')'' then Some ([], cs)
      else (case split_key cs of None \<Rightarrow> None | Some (k, r) \<Rightarrow> Some (c # k, r)))"

lemma split_key_length: "split_key cs = Some (k, r) \<Longrightarrow> length r < length cs"
  by (induction cs arbitrary: k r) (auto split: if_splits option.splits)

function fmt_dict :: "string \<Rightarrow> (string \<times> pyval) list \<Rightarrow> py_exn + string" where
  "fmt_dict [] m = Inr []"
| "fmt_dict [c] m = (if c = CHR ''%'' then Inl ValueError else Inr [c])"
| "fmt_dict (c # d # cs) m =
     (if c \<noteq> CHR ''%'' then prepend [c] (fmt_dict (d # cs) m)
      else if d = CHR ''%'' then prepend ''%'' (fmt_dict cs m)
      else if d = CHR ''('' then
        (case split_key cs of
           None \<Rightarrow> Inl ValueError
         | Some (k, r) \<Rightarrow>
             if CHR ''('' \<in> set k then Inl Unmodelled
             else (case r of
                 [] \<Rightarrow> Inl ValueError
               | conv # r' \<Rightarrow>
                   if conv = CHR ''s'' then
                     (case map_of m k of None \<Rightarrow> Inl KeyError
                      | Some v \<Rightarrow> then_prepend (py_str v) (fmt_dict r' m))
                   else if conv = CHR ''d'' then
                     (case map_of m k of None \<Rightarrow> Inl KeyError
                      | Some v \<Rightarrow> then_prepend (py_int_str v) (fmt_dict r' m))
                   else Inl Unmodelled))
      else Inl Unmodelled)"
  by pat_completeness auto
termination
  by (relation "measure (\<lambda>(t, m). length t)") (auto dest: split_key_length)

text \<open>
  \<open>template % v\<close> for any right operand: a tuple gives the arguments, a dict is the
  mapping, any other value is the single argument.
\<close>

definition py_mod :: "string \<Rightarrow> pyval \<Rightarrow> py_exn + string" where
  "py_mod t v =
     (case v of
        PTuple xs \<Rightarrow> fmt_tuple t xs
      | PDict m \<Rightarrow> fmt_dict t m
      | PList xs \<Rightarrow> Inl Unmodelled
      | PObj a \<Rightarrow> Inl Unmodelled
      | _ \<Rightarrow> fmt_tuple t [v])"

fun is_dict :: "pyval \<Rightarrow> bool" where
  "is_dict (PDict m) = True"
| "is_dict v = False"

section \<open>The message formatter\<close>

text \<open>
  \<^verbatim>\<open>_format_message(message, args)\<close>. A leading underscore is not a name in Isabelle
  and is dropped, here and below. \<open>args\<close> is the tuple of the remaining positional
  arguments, as a list.
\<close>

definition format_message :: "string \<Rightarrow> pyval list \<Rightarrow> py_exn + string" where
  "format_message message args =
     (if length args = 1 \<and> is_dict (hd args) then py_mod message (hd args)
      else if length args > 0 then py_mod message (PTuple args)
      else Inr message)"

section \<open>The process-wide state and the writers\<close>

text \<open>
  A CheckResult and a StatusResult, with the types their docstrings give
  (\<^verbatim>\<open>:param str server_name\<close>, \<^verbatim>\<open>:param bool status\<close>, \<^verbatim>\<open>:param str,None hint\<close>).
\<close>

record check_result =
  cr_server_name :: string
  cr_check :: string
  cr_status :: bool
  cr_hint :: "string option"

record status_result =
  sr_server_name :: string
  sr_status :: string
  sr_description :: string
  sr_message :: string

datatype writer_class = ConsoleOutputWriter | NagiosOutputWriter

record writer =
  cls :: writer_class
  debug_opt :: bool
  quiet_opt :: bool
  result_check_list :: "check_result list"
  result_status_list :: "status_result list"
  minimal :: bool

text \<open>
  The module global \<^verbatim>\<open>_writer\<close> holds whatever \<^verbatim>\<open>set_output_writer\<close> stored: a writer
  object, or a string when a name that is not in the registry was given.
\<close>

datatype slot = Inst writer | Str string

record log_entry =
  log_level :: string
  log_message :: string
  log_args :: "pyval list"
  log_exc_info :: bool

text \<open>
  A ghost trace: \<open>Call name w\<close> records that the module invoked the method \<open>name\<close>
  on the writer \<open>w\<close> (its state when the call starts; for \<open>__init__\<close>, the object built).
\<close>

datatype call = Call string writer

record world =
  error_occurred :: bool
  error_exit_code :: int
  the_writer :: slot
  stdout :: "string list"
  stderr :: "string list"
  logged :: "log_entry list"
  exc_info :: "py_exn option"
  calls :: "call list"

text \<open>
  Code runs on a state and returns a value or raises, keeping the effects it had until
  then. A method of a writer runs on its object and the globals; a function of the module
  runs on the globals.
\<close>

type_synonym ('s, 'a) run = "'s \<Rightarrow> (py_exn + 'a) \<times> 's"
type_synonym 'a meth = "(writer \<times> world, 'a) run"
type_synonym 'a facade = "(world, 'a) run"

definition retM :: "'a \<Rightarrow> ('s, 'a) run" where
  "retM x s = (Inr x, s)"

definition raiseM :: "py_exn \<Rightarrow> ('s, 'a) run" where
  "raiseM e s = (Inl e, s)"

definition liftE :: "py_exn + 'a \<Rightarrow> ('s, 'a) run" where
  "liftE r s = (r, s)"

definition bindM :: "('s, 'a) run \<Rightarrow> ('a \<Rightarrow> ('s, 'b) run) \<Rightarrow> ('s, 'b) run" where
  "bindM m f s = (case m s of (Inl e, s') \<Rightarrow> (Inl e, s') | (Inr x, s') \<Rightarrow> f x s')"

definition thenM :: "('s, unit) run \<Rightarrow> ('s, 'b) run \<Rightarrow> ('s, 'b) run" where
  "thenM m n = bindM m (\<lambda>_. n)"

fun seqM :: "('s, unit) run list \<Rightarrow> ('s, unit) run" where
  "seqM [] = retM ()"
| "seqM (m # ms) = thenM m (seqM ms)"

subsection \<open>ConsoleOutputWriter and NagiosOutputWriter: the messages\<close>

text \<open>\<^verbatim>\<open>print >> stream, text\<close> adds one entry to the stream.\<close>

definition out :: "string \<Rightarrow> pyval list \<Rightarrow> unit meth" where
  "out message args = (\<lambda>(w, g).
     case cls w of
       NagiosOutputWriter \<Rightarrow> (Inr (), (w, g))
     | ConsoleOutputWriter \<Rightarrow>
         (case format_message message args of
            Inl e \<Rightarrow> (Inl e, (w, g))
          | Inr s \<Rightarrow> (Inr (), (w, g\<lparr>stdout := stdout g @ [s]\<rparr>))))"

definition err :: "string \<Rightarrow> pyval list \<Rightarrow> unit meth" where
  "err message args = (\<lambda>(w, g).
     case cls w of
       NagiosOutputWriter \<Rightarrow> (Inr (), (w, g))
     | ConsoleOutputWriter \<Rightarrow>
         (case format_message message args of
            Inl e \<Rightarrow> (Inl e, (w, g))
          | Inr s \<Rightarrow> (Inr (), (w, g\<lparr>stderr := stderr g @ [s]\<rparr>))))"

definition w_debug :: "string \<Rightarrow> pyval list \<Rightarrow> unit meth" where
  "w_debug message args = (\<lambda>(w, g).
     if debug_opt w then err (''DEBUG: '' @ message) args (w, g) else (Inr (), (w, g)))"

definition w_info :: "string \<Rightarrow> pyval list \<Rightarrow> unit meth" where
  "w_info message args = (\<lambda>(w, g).
     if \<not> quiet_opt w then out message args (w, g) else (Inr (), (w, g)))"

definition w_warning :: "string \<Rightarrow> pyval list \<Rightarrow> unit meth" where
  "w_warning message args = err (''WARNING: '' @ message) args"

definition w_error :: "string \<Rightarrow> pyval list \<Rightarrow> unit meth" where
  "w_error message args = err (''ERROR: '' @ message) args"

definition w_exception :: "string \<Rightarrow> pyval list \<Rightarrow> unit meth" where
  "w_exception message args = err (''EXCEPTION: '' @ message) args"

definition w_error_occurred :: "unit meth" where
  "w_error_occurred = retM ()"

subsection \<open>close: nothing for the console, the aggregate line for Nagios\<close>

fun scan_checks :: "check_result list \<Rightarrow> string list \<Rightarrow> string list \<Rightarrow> string list \<times> string list" where
  "scan_checks [] issues servers = (issues, servers)"
| "scan_checks (item # items) issues servers =
     (let servers' = (if cr_server_name item \<notin> set servers
                      then servers @ [cr_server_name item] else servers);
          issues' = (if \<not> cr_status item \<and> cr_server_name item \<notin> set issues
                     then issues @ [cr_server_name item] else issues)
      in scan_checks items issues' servers')"

definition nagios_close :: "unit meth" where
  "nagios_close = (\<lambda>(w, g).
     case scan_checks (result_check_list w) [] [] of (issues, servers) \<Rightarrow>
       if length issues > 0 then
         (Inr (), (w, g\<lparr>stdout := stdout g @
             [''BARMAN CRITICAL - '' @ show_nat (length issues) @ '' server out of ''
                @ show_nat (length servers) @ '' has issues''],
             error_exit_code := 2\<rparr>))
       else
         (Inr (), (w, g\<lparr>stdout := stdout g @ [''BARMAN OK - Ready to serve the Espresso backup'']\<rparr>)))"

definition w_close :: "unit meth" where
  "w_close = (\<lambda>(w, g).
     case cls w of
       ConsoleOutputWriter \<Rightarrow> (Inr (), (w, g))
     | NagiosOutputWriter \<Rightarrow> nagios_close (w, g))"

subsection \<open>Values handed to the command handlers\<close>

definition bindE :: "py_exn + 'a \<Rightarrow> ('a \<Rightarrow> py_exn + 'b) \<Rightarrow> py_exn + 'b" where
  "bindE r f = (case r of Inl e \<Rightarrow> Inl e | Inr x \<Rightarrow> f x)"

fun mapE :: "('a \<Rightarrow> py_exn + 'b) \<Rightarrow> 'a list \<Rightarrow> py_exn + 'b list" where
  "mapE f [] = Inr []"
| "mapE f (x # xs) = bindE (f x) (\<lambda>y. bindE (mapE f xs) (\<lambda>ys. Inr (y # ys)))"

fun join_strs :: "string \<Rightarrow> string list \<Rightarrow> string" where
  "join_strs sep [] = []"
| "join_strs sep [x] = x"
| "join_strs sep (x # y # xs) = x @ sep @ join_strs sep (y # xs)"

text \<open>\<open>d[k]\<close> on a dict, \<open>o.name\<close> on an object, \<open>for x in v\<close>, \<open>a + b\<close>.\<close>

definition get_item :: "(string \<times> pyval) list \<Rightarrow> string \<Rightarrow> py_exn + pyval" where
  "get_item data k = (case map_of data k of None \<Rightarrow> Inl KeyError | Some v \<Rightarrow> Inr v)"

fun py_getattr :: "pyval \<Rightarrow> string \<Rightarrow> py_exn + pyval" where
  "py_getattr (PObj attrs) name =
     (case map_of attrs name of None \<Rightarrow> Inl AttributeError | Some v \<Rightarrow> Inr v)"
| "py_getattr v name = Inl AttributeError"

fun py_iter :: "pyval \<Rightarrow> py_exn + pyval list" where
  "py_iter (PList xs) = Inr xs"
| "py_iter (PTuple xs) = Inr xs"
| "py_iter (PStr s) = Inr (map (\<lambda>c. PStr [c]) s)"
| "py_iter (PDict d) = Inr (map (\<lambda>(k, v). PStr k) d)"
| "py_iter PNone = Inl TypeError"
| "py_iter (PBool b) = Inl TypeError"
| "py_iter (PInt i) = Inl TypeError"
| "py_iter v = Inl Unmodelled"

fun as_int :: "pyval \<Rightarrow> int option" where
  "as_int (PInt i) = Some i"
| "as_int (PBool b) = Some (if b then 1 else 0)"
| "as_int v = None"

fun is_obj :: "pyval \<Rightarrow> bool" where
  "is_obj (PObj a) = True"
| "is_obj v = False"

definition py_add :: "pyval \<Rightarrow> pyval \<Rightarrow> py_exn + pyval" where
  "py_add a b =
     (if is_obj a \<or> is_obj b then Inl Unmodelled
      else case as_int a of
        Some x \<Rightarrow> (case as_int b of Some y \<Rightarrow> Inr (PInt (x + y)) | None \<Rightarrow> Inl TypeError)
      | None \<Rightarrow>
          (case a of
             PStr x \<Rightarrow> (case b of PStr y \<Rightarrow> Inr (PStr (x @ y)) | _ \<Rightarrow> Inl TypeError)
           | PTuple x \<Rightarrow> (case b of PTuple y \<Rightarrow> Inr (PTuple (x @ y)) | _ \<Rightarrow> Inl TypeError)
           | PList x \<Rightarrow> (case b of PList y \<Rightarrow> Inr (PList (x @ y)) | _ \<Rightarrow> Inl TypeError)
           | _ \<Rightarrow> Inl TypeError))"

text \<open>
  \<open>dict(v)\<close>: a copy of a dict; from a sequence, one entry per element, each element a
  sequence of length two (ValueError for another length, TypeError for an element that
  is no sequence), a later key replacing an earlier one. Keys are strings here.
\<close>

definition pair_of_seq :: "pyval list \<Rightarrow> py_exn + (string \<times> pyval)" where
  "pair_of_seq xs =
     (case xs of
        [k, v] \<Rightarrow> (case k of PStr s \<Rightarrow> Inr (s, v) | _ \<Rightarrow> Inl Unmodelled)
      | _ \<Rightarrow> Inl ValueError)"

fun pair_of :: "pyval \<Rightarrow> py_exn + (string \<times> pyval)" where
  "pair_of (PTuple xs) = pair_of_seq xs"
| "pair_of (PList xs) = pair_of_seq xs"
| "pair_of (PStr s) = pair_of_seq (map (\<lambda>c. PStr [c]) s)"
| "pair_of (PDict d) = pair_of_seq (map (\<lambda>(k, v). PStr k) d)"
| "pair_of PNone = Inl TypeError"
| "pair_of (PBool b) = Inl TypeError"
| "pair_of (PInt i) = Inl TypeError"
| "pair_of v = Inl Unmodelled"

definition dict_set :: "string \<Rightarrow> pyval \<Rightarrow> (string \<times> pyval) list \<Rightarrow> (string \<times> pyval) list" where
  "dict_set k v d =
     (if map_of d k = None then d @ [(k, v)]
      else map (\<lambda>(k', v'). if k' = k then (k', v) else (k', v')) d)"

fun dict_from_seq :: "pyval list \<Rightarrow> (string \<times> pyval) list \<Rightarrow> py_exn + (string \<times> pyval) list" where
  "dict_from_seq [] d = Inr d"
| "dict_from_seq (x # xs) d =
     (case pair_of x of Inl e \<Rightarrow> Inl e | Inr (k, v) \<Rightarrow> dict_from_seq xs (dict_set k v d))"

fun py_dict :: "pyval \<Rightarrow> py_exn + (string \<times> pyval) list" where
  "py_dict (PDict d) = Inr d"
| "py_dict (PList xs) = dict_from_seq xs []"
| "py_dict (PTuple xs) = dict_from_seq xs []"
| "py_dict (PStr s) = dict_from_seq (map (\<lambda>c. PStr [c]) s) []"
| "py_dict PNone = Inl TypeError"
| "py_dict (PBool b) = Inl TypeError"
| "py_dict (PInt i) = Inl TypeError"
| "py_dict v = Inl Unmodelled"

text \<open>
  What this module imports from the rest of barman and does not define:
  \<^verbatim>\<open>barman.utils.pretty_size\<close> and the constant \<^verbatim>\<open>BackupInfo.DONE\<close> (a string).
  They are parameters of the embedding.
\<close>

record externals =
  pretty_size :: "pyval \<Rightarrow> py_exn + string"
  backup_done :: string

subsection \<open>The command handlers of ConsoleOutputWriter (inherited by NagiosOutputWriter)\<close>

definition result_backup :: "pyval \<Rightarrow> unit meth" where
  "result_backup backup_info = retM ()"

definition record_check :: "string \<Rightarrow> string \<Rightarrow> bool \<Rightarrow> string option \<Rightarrow> unit meth" where
  "record_check server_name check status hint = (\<lambda>(w, g).
     let w' = w\<lparr>result_check_list := result_check_list w @
                 [\<lparr>cr_server_name = server_name, cr_check = check,
                   cr_status = status, cr_hint = hint\<rparr>]\<rparr>
     in if \<not> status then (Inr (), (w', g\<lparr>error_occurred := True\<rparr>))
        else (Inr (), (w', g)))"

definition init_check :: "string \<Rightarrow> unit meth" where
  "init_check server_name = w_info (''Server '' @ server_name @ '':'') []"

definition hint_truthy :: "string option \<Rightarrow> bool" where
  "hint_truthy hint = (case hint of None \<Rightarrow> False | Some h \<Rightarrow> h \<noteq> [])"

definition result_check :: "string \<Rightarrow> string \<Rightarrow> bool \<Rightarrow> string option \<Rightarrow> unit meth" where
  "result_check server_name check status hint =
     thenM (record_check server_name check status hint)
       (if hint_truthy hint then
          w_info ([CHR 0x09] @ check @ '': '' @ (if status then ''OK'' else ''FAILED'')
                    @ '' ('' @ (case hint of Some h \<Rightarrow> h | None \<Rightarrow> ''None'') @ '')'') []
        else
          w_info ([CHR 0x09] @ check @ '': '' @ (if status then ''OK'' else ''FAILED'')) [])"

definition init_list_backup :: "string \<Rightarrow> bool \<Rightarrow> unit meth" where
  "init_list_backup server_name minimal_arg = (\<lambda>(w, g). (Inr (), (w\<lparr>minimal := minimal_arg\<rparr>, g)))"

definition tablespace_text :: "pyval \<Rightarrow> py_exn + string" where
  "tablespace_text tablespace =
     bindE (py_getattr tablespace ''name'') (\<lambda>n.
     bindE (py_getattr tablespace ''location'') (\<lambda>l.
     py_mod ''%s:%s'' (PTuple [n, l])))"

text \<open>The text \<^verbatim>\<open>''.join(out_list)\<close> of a backup that is not listed in minimal mode.\<close>

definition list_backup_line ::
  "externals \<Rightarrow> pyval \<Rightarrow> pyval \<Rightarrow> pyval \<Rightarrow> pyval \<Rightarrow> py_exn + string" where
  "list_backup_line ext backup_info backup_size wal_size retention_status =
     bindE (py_getattr backup_info ''server_name'') (\<lambda>sn.
     bindE (py_getattr backup_info ''backup_id'') (\<lambda>bid.
     bindE (py_mod ''%s %s - '' (PTuple [sn, bid])) (\<lambda>head.
     bindE (py_getattr backup_info ''status'') (\<lambda>st.
     if st = PStr (backup_done ext) then
       bindE (py_getattr backup_info ''end_time'') (\<lambda>et.
       bindE (py_getattr et ''ctime'') (\<lambda>end_time.
       bindE (pretty_size ext backup_size) (\<lambda>size1.
       bindE (pretty_size ext wal_size) (\<lambda>size2.
       bindE (py_mod ''%s - Size: %s - WAL Size: %s''
                (PTuple [end_time, PStr size1, PStr size2])) (\<lambda>body.
       bindE (py_getattr backup_info ''tablespaces'') (\<lambda>ts.
       bindE (if py_truthy ts then
                bindE (py_iter ts) (\<lambda>items.
                bindE (mapE tablespace_text items) (\<lambda>texts.
                Inr ('' (tablespaces: '' @ join_strs '', '' texts @ '')'')))
              else Inr []) (\<lambda>tsp.
       bindE (if py_truthy retention_status then py_mod '' - %s'' retention_status
              else Inr []) (\<lambda>ret.
       Inr (head @ body @ tsp @ ret)))))))))
     else (case st of PStr s \<Rightarrow> Inr (head @ s)
           | PObj a \<Rightarrow> Inl Unmodelled
           | _ \<Rightarrow> Inl TypeError)))))"

definition result_list_backup ::
  "externals \<Rightarrow> pyval \<Rightarrow> pyval \<Rightarrow> pyval \<Rightarrow> pyval \<Rightarrow> unit meth" where
  "result_list_backup ext backup_info backup_size wal_size retention_status = (\<lambda>(w, g).
     if minimal w then
       bindM (liftE (py_getattr backup_info ''backup_id'')) (\<lambda>bid.
       bindM (liftE (py_str bid)) (\<lambda>s. w_info s [])) (w, g)
     else
       bindM (liftE (list_backup_line ext backup_info backup_size wal_size retention_status))
         (\<lambda>s. w_info s []) (w, g))"

definition info_key :: "string \<Rightarrow> (string \<times> pyval) list \<Rightarrow> string \<Rightarrow> unit meth" where
  "info_key template data k = bindM (liftE (get_item data k)) (\<lambda>v. w_info template [v])"

definition tablespace_line :: "pyval \<Rightarrow> unit meth" where
  "tablespace_line item =
     bindM (liftE (py_getattr item ''name'')) (\<lambda>n.
     bindM (liftE (py_getattr item ''location'')) (\<lambda>l.
     bindM (liftE (py_getattr item ''oid'')) (\<lambda>oid.
     w_info ''    %s: %s (oid: %s)'' [n, l, oid])))"

definition setdefault_value :: "(string \<times> pyval) list \<Rightarrow> string \<Rightarrow> pyval \<Rightarrow> pyval" where
  "setdefault_value data k dflt = (case map_of data k of None \<Rightarrow> dflt | Some v \<Rightarrow> v)"

definition py_or :: "pyval \<Rightarrow> pyval \<Rightarrow> pyval" where
  "py_or a b = (if py_truthy a then a else b)"

text \<open>
  \<^verbatim>\<open>result_show_backup\<close>, the branch of a backup whose status is \<^verbatim>\<open>BackupInfo.DONE\<close>, in
  two parts: the lines up to the WAL information, and the catalog information.
\<close>

definition show_backup_details :: "externals \<Rightarrow> (string \<times> pyval) list \<Rightarrow> unit meth" where
  "show_backup_details ext data = seqM [
     info_key ''  PostgreSQL Version: %s'' data ''version'',
     info_key ''  PGDATA directory  : %s'' data ''pgdata'',
     bindM (liftE (get_item data ''tablespaces'')) (\<lambda>ts.
       if py_truthy ts then
         thenM (w_info ''  Tablespaces:'' [])
           (bindM (liftE (py_iter ts)) (\<lambda>items. seqM (map tablespace_line items)))
       else retM ()),
     w_info [] [],
     w_info ''  Base backup information:'' [],
     bindM (liftE (get_item data ''size'')) (\<lambda>a.
     bindM (liftE (get_item data ''wal_size'')) (\<lambda>b.
     bindM (liftE (py_add a b)) (\<lambda>total.
     bindM (liftE (pretty_size ext total)) (\<lambda>p.
     w_info ''    Disk usage      : %s'' [PStr p])))),
     info_key ''    Timeline        : %s'' data ''timeline'',
     info_key ''    Begin WAL       : %s'' data ''begin_wal'',
     info_key ''    End WAL         : %s'' data ''end_wal'',
     info_key ''    WAL number      : %s'' data ''wal_num'',
     info_key ''    Begin time      : %s'' data ''begin_time'',
     info_key ''    End time        : %s'' data ''end_time'',
     info_key ''    Begin Offset    : %s'' data ''begin_offset'',
     info_key ''    End Offset      : %s'' data ''end_offset'',
     info_key ''    Begin XLOG      : %s'' data ''begin_xlog'',
     info_key ''    End XLOG        : %s'' data ''end_xlog'',
     w_info [] [],
     w_info ''  WAL information:'' [],
     info_key ''    No of files     : %s'' data ''wal_until_next_num'',
     bindM (liftE (get_item data ''wal_until_next_size'')) (\<lambda>a.
     bindM (liftE (pretty_size ext a)) (\<lambda>p.
     w_info ''    Disk usage      : %s'' [PStr p])),
     info_key ''    Last available  : %s'' data ''wal_last'',
     w_info [] []]"

definition show_backup_catalog :: "(string \<times> pyval) list \<Rightarrow> unit meth" where
  "show_backup_catalog data = seqM [
     w_info ''  Catalog information:'' [],
     bindM (liftE (get_item data ''retention_policy_status'')) (\<lambda>v.
       w_info ''    Retention Policy: %s'' [py_or v (PStr ''not enforced'')]),
     w_info ''    Previous Backup : %s''
       [py_or (setdefault_value data ''previous_backup_id'' (PStr ''not available''))
              (PStr ''- (this is the oldest base backup)'')],
     w_info ''    Next Backup     : %s''
       [py_or (setdefault_value data ''next_backup_id'' (PStr ''not available''))
              (PStr ''- (this is the latest base backup)'')]]"

definition result_show_backup :: "externals \<Rightarrow> pyval \<Rightarrow> unit meth" where
  "result_show_backup ext backup_ext_info =
     bindM (liftE (py_dict backup_ext_info)) (\<lambda>data.
     thenM (info_key ''Backup %s:'' data ''backup_id'')
    (thenM (info_key ''  Server Name       : %s'' data ''server_name'')
    (thenM (info_key ''  Status            : %s'' data ''status'')
    (bindM (liftE (get_item data ''status'')) (\<lambda>st.
       if st = PStr (backup_done ext) then
         thenM (show_backup_details ext data) (show_backup_catalog data)
       else
         bindM (liftE (get_item data ''error'')) (\<lambda>e.
           if py_truthy e then info_key ''  Error:            : %s'' data ''error''
           else retM ()))))))"

definition init_status :: "string \<Rightarrow> unit meth" where
  "init_status server_name = w_info ''Server %s:'' [PStr server_name]"

definition result_status :: "string \<Rightarrow> string \<Rightarrow> string \<Rightarrow> pyval \<Rightarrow> unit meth" where
  "result_status server_name status description message =
     bindM (liftE (py_str message)) (\<lambda>msg.
     thenM (\<lambda>(w, g). (Inr (), (w\<lparr>result_status_list := result_status_list w @
                [\<lparr>sr_server_name = server_name, sr_status = status,
                  sr_description = description, sr_message = msg\<rparr>]\<rparr>, g)))
           (w_info (CHR 0x09 # ''%s: %s'') [PStr description, PStr msg]))"

definition init_list_server :: "string \<Rightarrow> bool \<Rightarrow> unit meth" where
  "init_list_server server_name minimal_arg = (\<lambda>(w, g). (Inr (), (w\<lparr>minimal := minimal_arg\<rparr>, g)))"

definition result_list_server :: "string \<Rightarrow> string option \<Rightarrow> unit meth" where
  "result_list_server server_name description = (\<lambda>(w, g).
     if minimal w \<or> \<not> hint_truthy description then w_info ''%s'' [PStr server_name] (w, g)
     else w_info ''%s - %s''
            [PStr server_name, (case description of Some d \<Rightarrow> PStr d | None \<Rightarrow> PNone)] (w, g))"

definition init_show_server :: "string \<Rightarrow> unit meth" where
  "init_show_server server_name = w_info (''Server '' @ server_name @ '':'') []"

definition result_show_server :: "string \<Rightarrow> (string \<times> pyval) list \<Rightarrow> unit meth" where
  "result_show_server server_name server_info =
     seqM (map (\<lambda>(status, message). w_info (CHR 0x09 # ''%s: %s'') [PStr status, message])
             server_info)"

subsection \<open>Calling a handler with positional and keyword arguments\<close>

text \<open>
  \<^verbatim>\<open>handler(*args, **kwargs)\<close> binds the arguments to the parameters of the handler
  (each with its default, if it has one); too many positional arguments, an unknown
  keyword, a parameter given twice or a parameter left without a value is a TypeError.
\<close>

fun bind_rest :: "(string \<times> pyval option) list \<Rightarrow> kwargs \<Rightarrow> py_exn + kwargs" where
  "bind_rest [] kw = Inr []"
| "bind_rest ((p, dflt) # ps) kw =
     (case map_of kw p of
        Some v \<Rightarrow> bindE (bind_rest ps kw) (\<lambda>r. Inr ((p, v) # r))
      | None \<Rightarrow>
          (case dflt of
             Some v \<Rightarrow> bindE (bind_rest ps kw) (\<lambda>r. Inr ((p, v) # r))
           | None \<Rightarrow> Inl TypeError))"

definition bind_args :: "(string \<times> pyval option) list \<Rightarrow> pyval list \<Rightarrow> kwargs \<Rightarrow> py_exn + kwargs" where
  "bind_args params args kw =
     (if length args > length params then Inl TypeError
      else if \<not> list_all (\<lambda>k. k \<in> set (map fst (drop (length args) params))) (map fst kw)
        then Inl TypeError
      else bindE (bind_rest (drop (length args) params) kw)
             (\<lambda>r. Inr (zip (map fst params) args @ r)))"

definition arg :: "kwargs \<Rightarrow> string \<Rightarrow> pyval" where
  "arg vs name = (case map_of vs name of Some v \<Rightarrow> v | None \<Rightarrow> PNone)"

text \<open>
  The handlers that take strings and booleans are embedded at the types their docstrings
  give; an argument of another type is outside the fragment. \<^verbatim>\<open>server_info.items()\<close> is
  an AttributeError on a value that is no dict.
\<close>

fun as_str :: "pyval \<Rightarrow> py_exn + string" where
  "as_str (PStr s) = Inr s"
| "as_str v = Inl Unmodelled"

fun as_bool :: "pyval \<Rightarrow> py_exn + bool" where
  "as_bool (PBool b) = Inr b"
| "as_bool v = Inl Unmodelled"

fun as_opt_str :: "pyval \<Rightarrow> py_exn + string option" where
  "as_opt_str PNone = Inr None"
| "as_opt_str (PStr s) = Inr (Some s)"
| "as_opt_str v = Inl Unmodelled"

fun as_items :: "pyval \<Rightarrow> py_exn + (string \<times> pyval) list" where
  "as_items (PDict d) = Inr d"
| "as_items (PObj a) = Inl Unmodelled"
| "as_items v = Inl AttributeError"

definition call_init_check :: "pyval list \<Rightarrow> kwargs \<Rightarrow> unit meth" where
  "call_init_check args kw =
     bindM (liftE (bind_args [(''server_name'', None)] args kw)) (\<lambda>vs.
     bindM (liftE (as_str (arg vs ''server_name''))) (\<lambda>server_name.
     init_check server_name))"

definition call_result_check :: "pyval list \<Rightarrow> kwargs \<Rightarrow> unit meth" where
  "call_result_check args kw =
     bindM (liftE (bind_args [(''server_name'', None), (''check'', None), (''status'', None),
                              (''hint'', Some PNone)] args kw)) (\<lambda>vs.
     bindM (liftE (as_str (arg vs ''server_name''))) (\<lambda>server_name.
     bindM (liftE (as_str (arg vs ''check''))) (\<lambda>check.
     bindM (liftE (as_bool (arg vs ''status''))) (\<lambda>status.
     bindM (liftE (as_opt_str (arg vs ''hint''))) (\<lambda>hint.
     result_check server_name check status hint)))))"

definition call_result_backup :: "pyval list \<Rightarrow> kwargs \<Rightarrow> unit meth" where
  "call_result_backup args kw =
     bindM (liftE (bind_args [(''backup_info'', None)] args kw)) (\<lambda>vs.
     result_backup (arg vs ''backup_info''))"

definition call_init_list_backup :: "pyval list \<Rightarrow> kwargs \<Rightarrow> unit meth" where
  "call_init_list_backup args kw =
     bindM (liftE (bind_args [(''server_name'', None), (''minimal'', Some (PBool False))] args kw)) (\<lambda>vs.
     bindM (liftE (as_str (arg vs ''server_name''))) (\<lambda>server_name.
     bindM (liftE (as_bool (arg vs ''minimal''))) (\<lambda>m.
     init_list_backup server_name m)))"

definition call_result_list_backup :: "externals \<Rightarrow> pyval list \<Rightarrow> kwargs \<Rightarrow> unit meth" where
  "call_result_list_backup ext args kw =
     bindM (liftE (bind_args [(''backup_info'', None), (''backup_size'', None),
                              (''wal_size'', None), (''retention_status'', None)] args kw)) (\<lambda>vs.
     result_list_backup ext (arg vs ''backup_info'') (arg vs ''backup_size'')
       (arg vs ''wal_size'') (arg vs ''retention_status''))"

definition call_result_show_backup :: "externals \<Rightarrow> pyval list \<Rightarrow> kwargs \<Rightarrow> unit meth" where
  "call_result_show_backup ext args kw =
     bindM (liftE (bind_args [(''backup_ext_info'', None)] args kw)) (\<lambda>vs.
     result_show_backup ext (arg vs ''backup_ext_info''))"

definition call_init_status :: "pyval list \<Rightarrow> kwargs \<Rightarrow> unit meth" where
  "call_init_status args kw =
     bindM (liftE (bind_args [(''server_name'', None)] args kw)) (\<lambda>vs.
     bindM (liftE (as_str (arg vs ''server_name''))) (\<lambda>server_name.
     init_status server_name))"

definition call_result_status :: "pyval list \<Rightarrow> kwargs \<Rightarrow> unit meth" where
  "call_result_status args kw =
     bindM (liftE (bind_args [(''server_name'', None), (''status'', None),
                              (''description'', None), (''message'', None)] args kw)) (\<lambda>vs.
     bindM (liftE (as_str (arg vs ''server_name''))) (\<lambda>server_name.
     bindM (liftE (as_str (arg vs ''status''))) (\<lambda>status.
     bindM (liftE (as_str (arg vs ''description''))) (\<lambda>description.
     result_status server_name status description (arg vs ''message'')))))"

definition call_init_list_server :: "pyval list \<Rightarrow> kwargs \<Rightarrow> unit meth" where
  "call_init_list_server args kw =
     bindM (liftE (bind_args [(''server_name'', None), (''minimal'', Some (PBool False))] args kw)) (\<lambda>vs.
     bindM (liftE (as_str (arg vs ''server_name''))) (\<lambda>server_name.
     bindM (liftE (as_bool (arg vs ''minimal''))) (\<lambda>m.
     init_list_server server_name m)))"

definition call_result_list_server :: "pyval list \<Rightarrow> kwargs \<Rightarrow> unit meth" where
  "call_result_list_server args kw =
     bindM (liftE (bind_args [(''server_name'', None), (''description'', Some PNone)] args kw)) (\<lambda>vs.
     bindM (liftE (as_str (arg vs ''server_name''))) (\<lambda>server_name.
     bindM (liftE (as_opt_str (arg vs ''description''))) (\<lambda>description.
     result_list_server server_name description)))"

definition call_init_show_server :: "pyval list \<Rightarrow> kwargs \<Rightarrow> unit meth" where
  "call_init_show_server args kw =
     bindM (liftE (bind_args [(''server_name'', None)] args kw)) (\<lambda>vs.
     bindM (liftE (as_str (arg vs ''server_name''))) (\<lambda>server_name.
     init_show_server server_name))"

definition call_result_show_server :: "pyval list \<Rightarrow> kwargs \<Rightarrow> unit meth" where
  "call_result_show_server args kw =
     bindM (liftE (bind_args [(''server_name'', None), (''server_info'', None)] args kw)) (\<lambda>vs.
     bindM (liftE (as_str (arg vs ''server_name''))) (\<lambda>server_name.
     bindM (liftE (as_items (arg vs ''server_info''))) (\<lambda>server_info.
     result_show_server server_name server_info)))"

text \<open>
  The callable attributes of a writer whose name starts with \<open>init_\<close> or \<open>result_\<close>.
  (\<open>result_check_list\<close> and \<open>result_status_list\<close> are attributes too, but lists are not
  callable.)
\<close>

definition handlers :: "externals \<Rightarrow> (string \<times> (pyval list \<Rightarrow> kwargs \<Rightarrow> unit meth)) list" where
  "handlers ext =
     [(''result_backup'', call_result_backup),
      (''init_check'', call_init_check),
      (''result_check'', call_result_check),
      (''init_list_backup'', call_init_list_backup),
      (''result_list_backup'', call_result_list_backup ext),
      (''result_show_backup'', call_result_show_backup ext),
      (''init_status'', call_init_status),
      (''result_status'', call_result_status),
      (''init_list_server'', call_init_list_server),
      (''result_list_server'', call_result_list_server),
      (''init_show_server'', call_init_show_server),
      (''result_show_server'', call_result_show_server)]"

section \<open>The functions of the module\<close>

text \<open>
  A method call on the object the global \<^verbatim>\<open>_writer\<close> holds. A string has none of the
  methods the module calls (AttributeError). The object the method leaves is the one
  the global still refers to.
\<close>

definition on_writer :: "string \<Rightarrow> unit meth \<Rightarrow> unit facade" where
  "on_writer name m = (\<lambda>g.
     case the_writer g of
       Str s \<Rightarrow> (Inl AttributeError, g)
     | Inst w \<Rightarrow>
         (case m (w, g\<lparr>calls := calls g @ [Call name w]\<rparr>) of
            (r, (w', g')) \<Rightarrow> (r, g'\<lparr>the_writer := Inst w'\<rparr>)))"

definition kw_get :: "kwargs \<Rightarrow> string \<Rightarrow> pyval \<Rightarrow> pyval" where
  "kw_get kw k dflt = (case map_of kw k of Some v \<Rightarrow> v | None \<Rightarrow> dflt)"

definition kw_del :: "string \<Rightarrow> kwargs \<Rightarrow> kwargs" where
  "kw_del k kw = filter (\<lambda>(k', v). k' \<noteq> k) kw"

definition kw_setdefault :: "string \<Rightarrow> pyval \<Rightarrow> kwargs \<Rightarrow> kwargs" where
  "kw_setdefault k v kw = (if map_of kw k = None then kw @ [(k, v)] else kw)"

text \<open>The five values \<^verbatim>\<open>_put\<close> is called with as its \<open>level\<close>.\<close>

datatype level = L_debug | L_info | L_warning | L_error | L_exception

fun level_name :: "level \<Rightarrow> string" where
  "level_name L_debug = ''debug''"
| "level_name L_info = ''info''"
| "level_name L_warning = ''warning''"
| "level_name L_error = ''error''"
| "level_name L_exception = ''exception''"

fun level_method :: "level \<Rightarrow> string \<Rightarrow> pyval list \<Rightarrow> unit meth" where
  "level_method L_debug = w_debug"
| "level_method L_info = w_info"
| "level_method L_warning = w_warning"
| "level_method L_error = w_error"
| "level_method L_exception = w_exception"

text \<open>
  The record handed to the logging module: the level name in upper case (\<open>ERROR\<close> with
  the stack trace for \<open>exception\<close>), the template and its arguments. The logger is named
  after the calling module, found on the call stack; that name is not embedded.
\<close>

fun log_level_name :: "level \<Rightarrow> string" where
  "log_level_name L_debug = ''DEBUG''"
| "log_level_name L_info = ''INFO''"
| "log_level_name L_warning = ''WARNING''"
| "log_level_name L_error = ''ERROR''"
| "log_level_name L_exception = ''ERROR''"

definition emit_log :: "level \<Rightarrow> string \<Rightarrow> pyval list \<Rightarrow> unit facade" where
  "emit_log lv message args = (\<lambda>g.
     (Inr (), g\<lparr>logged := logged g @
        [\<lparr>log_level = log_level_name lv, log_message = message, log_args = args,
          log_exc_info = (lv = L_exception)\<rparr>]\<rparr>))"

definition mark_error :: "unit facade" where
  "mark_error = (\<lambda>g. (Inr (), g\<lparr>error_occurred := True\<rparr>))"

definition put :: "level \<Rightarrow> string \<Rightarrow> pyval list \<Rightarrow> kwargs \<Rightarrow> unit facade" where
  "put lv message args kwargs =
     (let log = kw_get kwargs ''log'' (PBool True);
          is_error = kw_get kwargs ''is_error'' (PBool False);
          rest = kw_del ''is_error'' (kw_del ''log'' kwargs)
      in if length rest \<noteq> 0 then raiseM TypeError
         else
           thenM (if py_truthy is_error
                  then thenM mark_error (on_writer ''error_occurred'' w_error_occurred)
                  else retM ())
          (thenM (on_writer (level_name lv) (level_method lv message args))
                 (if py_truthy log then emit_log lv message args else retM ())))"

definition debug :: "string \<Rightarrow> pyval list \<Rightarrow> kwargs \<Rightarrow> unit facade" where
  "debug message args kwargs = put L_debug message args kwargs"

definition info :: "string \<Rightarrow> pyval list \<Rightarrow> kwargs \<Rightarrow> unit facade" where
  "info message args kwargs = put L_info message args kwargs"

definition warning :: "string \<Rightarrow> pyval list \<Rightarrow> kwargs \<Rightarrow> unit facade" where
  "warning message args kwargs = put L_warning message args kwargs"

definition error :: "string \<Rightarrow> pyval list \<Rightarrow> kwargs \<Rightarrow> unit facade" where
  "error message args kwargs =
     (let ignore = kw_get kwargs ''ignore'' (PBool False);
          kwargs1 = kw_del ''ignore'' kwargs;
          kwargs2 = (if \<not> py_truthy ignore then kw_setdefault ''is_error'' (PBool True) kwargs1
                     else kwargs1)
      in put L_error message args kwargs2)"

text \<open>
  A bare \<^verbatim>\<open>raise\<close> raises again the exception being handled (\<open>exc_info\<close>); with none,
  Python 2 raises a TypeError.
\<close>

definition reraise :: "unit facade" where
  "reraise = (\<lambda>g. (Inl (case exc_info g of Some e \<Rightarrow> e | None \<Rightarrow> TypeError), g))"

definition exception :: "string \<Rightarrow> pyval list \<Rightarrow> kwargs \<Rightarrow> unit facade" where
  "exception message args kwargs =
     (let ignore = kw_get kwargs ''ignore'' (PBool False);
          kwargs1 = kw_del ''ignore'' kwargs;
          raise_exception = kw_get kwargs1 ''raise_exception'' PNone;
          kwargs2 = kw_del ''raise_exception'' kwargs1;
          kwargs3 = (if \<not> py_truthy ignore then kw_setdefault ''is_error'' (PBool True) kwargs2
                     else kwargs2)
      in thenM (put L_exception message args kwargs3)
           (if py_truthy raise_exception then
              (case raise_exception of
                 PExcClass e \<Rightarrow> raiseM e
               | PObj a \<Rightarrow> raiseM Unmodelled
               | PExc e \<Rightarrow> raiseM e
               | _ \<Rightarrow> reraise)
            else retM ()))"

definition close :: "unit facade" where
  "close = on_writer ''close'' w_close"

text \<open>\<^verbatim>\<open>sys.exit(code)\<close> raises \<open>SystemExit(code)\<close>.\<close>

definition close_and_exit :: "unit facade" where
  "close_and_exit =
     thenM close
       (\<lambda>g. if error_occurred g then (Inl (SystemExit (error_exit_code g)), g)
            else (Inl (SystemExit 0), g))"

text \<open>
  \<^verbatim>\<open>_dispatch(obj, prefix, name, *args, **kwargs)\<close>. The module passes the global
  \<^verbatim>\<open>_writer\<close> as \<open>obj\<close>, which the embedding reads from the state.
\<close>

definition dispatch :: "externals \<Rightarrow> string \<Rightarrow> string \<Rightarrow> pyval list \<Rightarrow> kwargs \<Rightarrow> unit facade" where
  "dispatch ext prefix name args kwargs = (\<lambda>g.
     let method_name = prefix @ ''_'' @ name in
     case the_writer g of
       Str s \<Rightarrow> (Inl ValueError, g)
     | Inst w \<Rightarrow>
         (case map_of (handlers ext) method_name of
            Some handler \<Rightarrow> on_writer method_name (handler args kwargs) g
          | None \<Rightarrow> (Inl ValueError, g)))"

definition class_name :: "slot \<Rightarrow> string" where
  "class_name sl =
     (case sl of
        Str s \<Rightarrow> ''str''
      | Inst w \<Rightarrow> (case cls w of ConsoleOutputWriter \<Rightarrow> ''ConsoleOutputWriter''
                               | NagiosOutputWriter \<Rightarrow> ''NagiosOutputWriter''))"

definition unsupported_template :: string where
  "unsupported_template =
     ''The %s writer does not support the '' @ [CHR 0x22] @ ''%s'' @ [CHR 0x22] @ '' command''"

definition init :: "externals \<Rightarrow> string \<Rightarrow> pyval list \<Rightarrow> kwargs \<Rightarrow> unit facade" where
  "init ext command args kwargs = (\<lambda>g.
     case dispatch ext ''init'' command args kwargs g of
       (Inr x, g1) \<Rightarrow> (Inr x, g1)
     | (Inl e, g1) \<Rightarrow>
         if e = ValueError then
           thenM (exception unsupported_template
                    [PStr (class_name (the_writer g1)), PStr command] [])
                 close_and_exit g1
         else (Inl e, g1))"

definition result :: "externals \<Rightarrow> string \<Rightarrow> pyval list \<Rightarrow> kwargs \<Rightarrow> unit facade" where
  "result ext command args kwargs = (\<lambda>g.
     case dispatch ext ''result'' command args kwargs g of
       (Inr x, g1) \<Rightarrow> (Inr x, g1)
     | (Inl e, g1) \<Rightarrow>
         if e = ValueError then
           thenM (exception unsupported_template
                    [PStr (class_name (the_writer g1)), PStr command] [])
                 close_and_exit g1
         else (Inl e, g1))"

subsection \<open>Replacing the writer\<close>

definition AVAILABLE_WRITERS :: "(string \<times> writer_class) list" where
  "AVAILABLE_WRITERS = [(''console'', ConsoleOutputWriter)]"

definition DEFAULT_WRITER :: string where
  "DEFAULT_WRITER = ''console''"

definition new_writer_obj :: "writer_class \<Rightarrow> bool \<Rightarrow> bool \<Rightarrow> writer" where
  "new_writer_obj c d q =
     \<lparr>cls = c, debug_opt = d, quiet_opt = q, result_check_list = [],
      result_status_list = [], minimal = False\<rparr>"

text \<open>\<^verbatim>\<open>AVAILABLE_WRITERS[name](*args, **kwargs)\<close>: the constructor \<^verbatim>\<open>__init__(self, debug=False, quiet=False)\<close>.\<close>

definition construct :: "writer_class \<Rightarrow> pyval list \<Rightarrow> kwargs \<Rightarrow> writer facade" where
  "construct c args kw =
     bindM (liftE (bind_args [(''debug'', Some (PBool False)), (''quiet'', Some (PBool False))]
                     args kw)) (\<lambda>vs.
     bindM (liftE (as_bool (arg vs ''debug''))) (\<lambda>d.
     bindM (liftE (as_bool (arg vs ''quiet''))) (\<lambda>q.
     (\<lambda>g. (Inr (new_writer_obj c d q),
            g\<lparr>calls := calls g @ [Call ''__init__'' (new_writer_obj c d q)]\<rparr>)))))"

text \<open>The \<open>new_writer\<close> parameter: "a symbolic name or an OutputWriter object".\<close>

datatype new_writer = ByName string | ByObject writer

definition set_slot :: "slot \<Rightarrow> unit facade" where
  "set_slot sl = (\<lambda>g. (Inr (), g\<lparr>the_writer := sl\<rparr>))"

definition set_output_writer :: "new_writer \<Rightarrow> pyval list \<Rightarrow> kwargs \<Rightarrow> unit facade" where
  "set_output_writer nw args kwargs =
     thenM (on_writer ''close'' w_close)
       (case nw of
          ByName n \<Rightarrow>
            (case map_of AVAILABLE_WRITERS n of
               Some c \<Rightarrow> bindM (construct c args kwargs) (\<lambda>w. set_slot (Inst w))
             | None \<Rightarrow> set_slot (Str n))
        | ByObject w \<Rightarrow> set_slot (Inst w))"

text \<open>The state when the module has been loaded.\<close>

definition initial_world :: world where
  "initial_world =
     \<lparr>error_occurred = False, error_exit_code = 1,
      the_writer = Inst (new_writer_obj ConsoleOutputWriter False False),
      stdout = [], stderr = [], logged = [], exc_info = None, calls = []\<rparr>"

section \<open>Notions of the specification and test inputs\<close>

text \<open>
  The specification speaks of "the distinct set of server names" and "the distinct set
  of server names having at least one failed check" of a list of CheckResult records.
\<close>

definition seen_servers :: "check_result list \<Rightarrow> string set" where
  "seen_servers rs = cr_server_name ` set rs"

definition failed_servers :: "check_result list \<Rightarrow> string set" where
  "failed_servers rs = {cr_server_name r | r. r \<in> set rs \<and> \<not> cr_status r}"

text \<open>
  The scenario of the specification: three checks of server pg1 (passed, failed, passed)
  and one of pg2 (passed), held by a Nagios writer.
\<close>

definition scenario_checks :: "check_result list" where
  "scenario_checks =
    [\<lparr>cr_server_name = ''pg1'', cr_check = ''ssh'', cr_status = True, cr_hint = None\<rparr>,
     \<lparr>cr_server_name = ''pg1'', cr_check = ''PostgreSQL'', cr_status = False, cr_hint = None\<rparr>,
     \<lparr>cr_server_name = ''pg1'', cr_check = ''archive_mode'', cr_status = True, cr_hint = None\<rparr>,
     \<lparr>cr_server_name = ''pg2'', cr_check = ''ssh'', cr_status = True, cr_hint = None\<rparr>]"

definition nagios_scenario :: writer where
  "nagios_scenario =
     new_writer_obj NagiosOutputWriter False False\<lparr>result_check_list := scenario_checks\<rparr>"

definition console0 :: writer where
  "console0 = new_writer_obj ConsoleOutputWriter False False"

text \<open>
  The operations of the module as one step function, to speak of a whole run. A run goes
  on after an exception, as when the caller catches it.
\<close>

datatype operation =
    Op_debug string "pyval list" kwargs
  | Op_info string "pyval list" kwargs
  | Op_warning string "pyval list" kwargs
  | Op_error string "pyval list" kwargs
  | Op_exception string "pyval list" kwargs
  | Op_init string "pyval list" kwargs
  | Op_result string "pyval list" kwargs
  | Op_close
  | Op_close_and_exit
  | Op_set_output_writer new_writer "pyval list" kwargs

fun perform :: "externals \<Rightarrow> operation \<Rightarrow> unit facade" where
  "perform ext (Op_debug message args kw) = debug message args kw"
| "perform ext (Op_info message args kw) = info message args kw"
| "perform ext (Op_warning message args kw) = warning message args kw"
| "perform ext (Op_error message args kw) = error message args kw"
| "perform ext (Op_exception message args kw) = exception message args kw"
| "perform ext (Op_init command args kw) = init ext command args kw"
| "perform ext (Op_result command args kw) = result ext command args kw"
| "perform ext Op_close = close"
| "perform ext Op_close_and_exit = close_and_exit"
| "perform ext (Op_set_output_writer nw args kw) = set_output_writer nw args kw"

fun run_ops :: "externals \<Rightarrow> operation list \<Rightarrow> world \<Rightarrow> world" where
  "run_ops ext [] g = g"
| "run_ops ext (x # xs) g = run_ops ext xs (snd (perform ext x g))"

text \<open>
  Code leaves a component of the state as it is (\<open>unchanged\<close>), or keeps a property of
  the state once it holds (\<open>preserves\<close>), whether it returns or raises.
\<close>

definition unchanged :: "('s \<Rightarrow> 'x) \<Rightarrow> ('s, 'a) run \<Rightarrow> bool" where
  "unchanged proj m = (\<forall>s. proj (snd (m s)) = proj s)"

definition preserves :: "('s \<Rightarrow> bool) \<Rightarrow> ('s, 'a) run \<Rightarrow> bool" where
  "preserves P m = (\<forall>s. P s \<longrightarrow> P (snd (m s)))"

abbreviation flag_of :: "writer \<times> world \<Rightarrow> bool" where
  "flag_of \<equiv> (\<lambda>s. error_occurred (snd s))"

named_theorems run_intros

text \<open>
  A stand-in for the two imported names, used at concrete inputs only.
\<close>

definition plain_externals :: externals where
  "plain_externals =
     \<lparr>pretty_size = (\<lambda>v. case v of PInt i \<Rightarrow> Inr (show_int i @ '' B'') | _ \<Rightarrow> Inl TypeError),
      backup_done = ''DONE''\<rparr>"

definition after_error :: world where
  "after_error = snd (perform plain_externals (Op_error ''boom'' [] []) initial_world)"



definition nagios_world :: world where
  "nagios_world = initial_world\<lparr>the_writer := Inst nagios_scenario\<rparr>"



definition appends_out :: "'a meth \<Rightarrow> bool" where
  "appends_out m =
     (\<forall>w g. fst (snd (m (w, g))) = w
            \<and> (\<exists>pre. stdout (snd (snd (m (w, g)))) = stdout g @ pre))"












text \<open>Code that never raises ValueError.\<close>

definition no_value_error :: "('s, 'a) run \<Rightarrow> bool" where
  "no_value_error m = (\<forall>s. fst (m s) \<noteq> Inl ValueError)"

text \<open>
  The scenario of the specification as calls of the module: a Nagios writer is installed,
  then the checks of pg1 and pg2 are reported.
\<close>

definition scenario_ops :: "operation list" where
  "scenario_ops =
     [Op_set_output_writer (ByObject (new_writer_obj NagiosOutputWriter False False)) [] [],
      Op_init ''check'' [PStr ''pg1''] [],
      Op_result ''check'' [PStr ''pg1'', PStr ''ssh'', PBool True] [],
      Op_result ''check'' [PStr ''pg1'', PStr ''PostgreSQL'', PBool False] [],
      Op_result ''check'' [PStr ''pg1'', PStr ''archive_mode'', PBool True] [],
      Op_init ''check'' [PStr ''pg2''] [],
      Op_result ''check'' [PStr ''pg2'', PStr ''ssh'', PBool True] []]"

section \<open>Basic facts about running code\<close>

lemma bindM_simps [simp]:
  "bindM (retM x) f = f x"
  "bindM (raiseM e) f = raiseM e"
  "bindM (liftE (Inr x)) f = f x"
  "bindM (liftE (Inl e)) f = raiseM e"
  by (auto simp: bindM_def retM_def raiseM_def liftE_def)

lemma thenM_simps [simp]:
  "thenM (retM ()) n = n"
  "thenM (raiseM e) n = raiseM e"
  by (simp_all add: thenM_def)

lemma bindM_run:
  "bindM m f s = (case m s of (Inl e, s') \<Rightarrow> (Inl e, s') | (Inr x, s') \<Rightarrow> f x s')"
  by (simp add: bindM_def)

lemma thenM_run:
  "thenM m n s = (case m s of (Inl e, s') \<Rightarrow> (Inl e, s') | (Inr x, s') \<Rightarrow> n s')"
  by (simp add: thenM_def bindM_def)

lemma format_message_no_args [simp]: "format_message message [] = Inr message"
  by (simp add: format_message_def)

lemma w_info_no_args:
  "w_info message [] (w, g) =
     (Inr (), (w, g\<lparr>stdout := stdout g @
        (if cls w = ConsoleOutputWriter \<and> \<not> quiet_opt w then [message] else [])\<rparr>))"
  by (cases "cls w") (simp_all add: w_info_def out_def)

lemma w_close_run:
  "\<exists>g'. w_close (w, g) = (Inr (), (w, g')) \<and> error_occurred g' = error_occurred g
        \<and> calls g' = calls g \<and> the_writer g' = the_writer g"
  by (cases "cls w")
     (auto simp: w_close_def nagios_close_def split: prod.splits)

lemma unchanged_preserves: "unchanged proj m \<Longrightarrow> preserves (\<lambda>s. Q (proj s)) m"
  by (simp add: unchanged_def preserves_def)

lemma unchanged_retM [run_intros]: "unchanged proj (retM x)"
  by (simp add: unchanged_def retM_def)

lemma unchanged_raiseM [run_intros]: "unchanged proj (raiseM e)"
  by (simp add: unchanged_def raiseM_def)

lemma unchanged_liftE [run_intros]: "unchanged proj (liftE r)"
  by (simp add: unchanged_def liftE_def)

lemma unchanged_bindM [run_intros]:
  assumes "unchanged proj m" and "\<And>x. unchanged proj (f x)"
  shows "unchanged proj (bindM m f)"
proof -
  have "proj (snd (bindM m f s)) = proj s" for s
  proof (cases "m s")
    case (Pair r s')
    with assms(1) have a: "proj s' = proj s"
      unfolding unchanged_def by (metis snd_conv)
    show ?thesis
    proof (cases r)
      case (Inl e)
      with Pair a show ?thesis by (simp add: bindM_def)
    next
      case (Inr x)
      from assms(2) [of x] have "proj (snd (f x s')) = proj s'"
        by (simp add: unchanged_def)
      with Pair Inr a show ?thesis by (simp add: bindM_def)
    qed
  qed
  then show ?thesis by (simp add: unchanged_def)
qed

lemma unchanged_thenM [run_intros]:
  "unchanged proj m \<Longrightarrow> unchanged proj n \<Longrightarrow> unchanged proj (thenM m n)"
  by (simp add: thenM_def unchanged_bindM)

lemma unchanged_seqM [run_intros]:
  "(\<And>m. m \<in> set ms \<Longrightarrow> unchanged proj m) \<Longrightarrow> unchanged proj (seqM ms)"
  by (induction ms) (auto intro: run_intros)

lemma unchanged_if [run_intros]:
  "(c \<Longrightarrow> unchanged proj a) \<Longrightarrow> (\<not> c \<Longrightarrow> unchanged proj b) \<Longrightarrow> unchanged proj (if c then a else b)"
  by simp

lemma unchanged_cond:
  "unchanged proj a \<Longrightarrow> unchanged proj b \<Longrightarrow>
   unchanged proj (\<lambda>(w, g). if c w then a (w, g) else b (w, g))"
  by (auto simp: unchanged_def)

lemma preserves_retM [run_intros]: "preserves P (retM x)"
  by (simp add: preserves_def retM_def)

lemma preserves_raiseM [run_intros]: "preserves P (raiseM e)"
  by (simp add: preserves_def raiseM_def)

lemma preserves_liftE [run_intros]: "preserves P (liftE r)"
  by (simp add: preserves_def liftE_def)

lemma preserves_bindM [run_intros]:
  assumes "preserves P m" and "\<And>x. preserves P (f x)"
  shows "preserves P (bindM m f)"
proof -
  have "P (snd (bindM m f s))" if "P s" for s
  proof (cases "m s")
    case (Pair r s')
    with assms(1) that have a: "P s'"
      unfolding preserves_def by (metis snd_conv)
    show ?thesis
    proof (cases r)
      case (Inl e)
      with Pair a show ?thesis by (simp add: bindM_def)
    next
      case (Inr x)
      from assms(2) [of x] a have "P (snd (f x s'))"
        by (simp add: preserves_def)
      with Pair Inr show ?thesis by (simp add: bindM_def)
    qed
  qed
  then show ?thesis by (simp add: preserves_def)
qed

lemma preserves_thenM [run_intros]:
  "preserves P m \<Longrightarrow> preserves P n \<Longrightarrow> preserves P (thenM m n)"
  by (simp add: thenM_def preserves_bindM)

lemma preserves_if [run_intros]:
  "(c \<Longrightarrow> preserves P a) \<Longrightarrow> (\<not> c \<Longrightarrow> preserves P b) \<Longrightarrow> preserves P (if c then a else b)"
  by simp

subsection \<open>The writers and the error state\<close>

lemma out_flag [run_intros]: "unchanged flag_of (out message args)"
  by (auto simp: unchanged_def out_def split: writer_class.splits sum.splits)

lemma err_flag [run_intros]: "unchanged flag_of (err message args)"
  by (auto simp: unchanged_def err_def split: writer_class.splits sum.splits)

lemma w_info_flag [run_intros]: "unchanged flag_of (w_info message args)"
  using out_flag [of message args] by (auto simp: unchanged_def w_info_def)

lemma w_debug_flag [run_intros]: "unchanged flag_of (w_debug message args)"
  using err_flag [of "''DEBUG: '' @ message" args] by (auto simp: unchanged_def w_debug_def)

lemma w_warning_flag [run_intros]: "unchanged flag_of (w_warning message args)"
  by (simp add: w_warning_def err_flag)

lemma w_error_flag [run_intros]: "unchanged flag_of (w_error message args)"
  by (simp add: w_error_def err_flag)

lemma w_exception_flag [run_intros]: "unchanged flag_of (w_exception message args)"
  by (simp add: w_exception_def err_flag)

lemma level_method_flag [run_intros]: "unchanged flag_of (level_method lv message args)"
  by (cases lv) (simp_all add: run_intros)

lemma w_error_occurred_flag [run_intros]: "unchanged flag_of w_error_occurred"
  by (simp add: w_error_occurred_def run_intros)

lemma w_close_flag [run_intros]: "unchanged flag_of w_close"
  unfolding unchanged_def
proof
  fix s :: "writer \<times> world"
  obtain w g where s: "s = (w, g)" by (cases s)
  from w_close_run [of w g] s show "flag_of (snd (w_close s)) = flag_of s" by auto
qed

lemma info_key_flag [run_intros]: "unchanged flag_of (info_key t data k)"
  by (auto simp: info_key_def intro!: run_intros)

lemma tablespace_line_flag [run_intros]: "unchanged flag_of (tablespace_line item)"
  by (auto simp: tablespace_line_def intro!: run_intros)

lemma show_backup_details_flag [run_intros]: "unchanged flag_of (show_backup_details ext data)"
  unfolding show_backup_details_def
  by (intro run_intros) (auto intro!: run_intros)

lemma show_backup_catalog_flag [run_intros]: "unchanged flag_of (show_backup_catalog data)"
  unfolding show_backup_catalog_def
  by (intro run_intros) (auto intro!: run_intros)

lemma result_show_backup_flag [run_intros]: "unchanged flag_of (result_show_backup ext v)"
  unfolding result_show_backup_def
  by (intro run_intros)

lemma result_backup_flag [run_intros]: "unchanged flag_of (result_backup v)"
  by (simp add: result_backup_def run_intros)

lemma init_check_flag [run_intros]: "unchanged flag_of (init_check n)"
  by (simp add: init_check_def run_intros)

lemma init_list_backup_flag [run_intros]: "unchanged flag_of (init_list_backup n m)"
  by (simp add: init_list_backup_def unchanged_def)

lemma result_list_backup_flag [run_intros]: "unchanged flag_of (result_list_backup ext a b c d)"
  unfolding result_list_backup_def
  by (rule unchanged_cond) (intro run_intros)+

lemma init_status_flag [run_intros]: "unchanged flag_of (init_status n)"
  by (simp add: init_status_def run_intros)

lemma result_status_flag [run_intros]: "unchanged flag_of (result_status a b c d)"
  unfolding result_status_def
  by (intro run_intros) (simp add: unchanged_def)

lemma init_list_server_flag [run_intros]: "unchanged flag_of (init_list_server n m)"
  by (simp add: init_list_server_def unchanged_def)

lemma result_list_server_flag [run_intros]: "unchanged flag_of (result_list_server n d)"
  unfolding result_list_server_def
  by (rule unchanged_cond) (intro run_intros)+

lemma init_show_server_flag [run_intros]: "unchanged flag_of (init_show_server n)"
  by (simp add: init_show_server_def run_intros)

lemma result_show_server_flag [run_intros]: "unchanged flag_of (result_show_server n d)"
  unfolding result_show_server_def
  by (intro run_intros) (auto intro!: run_intros)

lemma unchanged_flag_preserves: "unchanged flag_of m \<Longrightarrow> preserves flag_of m"
  by (simp add: unchanged_def preserves_def)

lemma record_check_mono: "preserves flag_of (record_check a b c d)"
  by (auto simp: preserves_def record_check_def Let_def)

lemma result_check_mono: "preserves flag_of (result_check a b c d)"
  unfolding result_check_def
  by (intro preserves_thenM preserves_if record_check_mono unchanged_flag_preserves w_info_flag)

subsection \<open>The module functions and the error state\<close>

lemma call_unchanged:
  "unchanged flag_of (call_init_check args kw)"
  "unchanged flag_of (call_result_backup args kw)"
  "unchanged flag_of (call_init_list_backup args kw)"
  "unchanged flag_of (call_result_list_backup ext args kw)"
  "unchanged flag_of (call_result_show_backup ext args kw)"
  "unchanged flag_of (call_init_status args kw)"
  "unchanged flag_of (call_result_status args kw)"
  "unchanged flag_of (call_init_list_server args kw)"
  "unchanged flag_of (call_result_list_server args kw)"
  "unchanged flag_of (call_init_show_server args kw)"
  "unchanged flag_of (call_result_show_server args kw)"
  unfolding call_init_check_def call_result_backup_def call_init_list_backup_def
    call_result_list_backup_def call_result_show_backup_def call_init_status_def
    call_result_status_def call_init_list_server_def call_result_list_server_def
    call_init_show_server_def call_result_show_server_def
  by (intro run_intros)+

lemma call_result_check_mono: "preserves flag_of (call_result_check args kw)"
  unfolding call_result_check_def
  by (intro preserves_bindM preserves_liftE result_check_mono)

lemma handler_mono:
  assumes "map_of (handlers ext) name = Some h"
  shows "preserves flag_of (h args kw)"
proof -
  from assms have "(name, h) \<in> set (handlers ext)" by (rule map_of_SomeD)
  then show ?thesis
    by (auto simp: handlers_def intro: call_unchanged [THEN unchanged_flag_preserves]
          call_result_check_mono)
qed

lemma on_writer_unchanged:
  assumes "unchanged flag_of m"
  shows "unchanged error_occurred (on_writer name m)"
  unfolding unchanged_def
proof
  fix g :: world
  show "error_occurred (snd (on_writer name m g)) = error_occurred g"
  proof (cases "the_writer g")
    case (Str s)
    then show ?thesis by (simp add: on_writer_def)
  next
    case (Inst w)
    obtain r w' g' where m: "m (w, g\<lparr>calls := calls g @ [Call name w]\<rparr>) = (r, (w', g'))"
      by (metis prod.exhaust)
    from assms have "flag_of (snd (m (w, g\<lparr>calls := calls g @ [Call name w]\<rparr>)))
                      = flag_of (w, g\<lparr>calls := calls g @ [Call name w]\<rparr>)"
      unfolding unchanged_def by blast
    with m have "error_occurred g' = error_occurred g" by simp
    with Inst m show ?thesis by (simp add: on_writer_def)
  qed
qed

lemma on_writer_mono:
  assumes "preserves flag_of m"
  shows "preserves error_occurred (on_writer name m)"
  unfolding preserves_def
proof (intro allI impI)
  fix g :: world
  assume e: "error_occurred g"
  show "error_occurred (snd (on_writer name m g))"
  proof (cases "the_writer g")
    case (Str s)
    with e show ?thesis by (simp add: on_writer_def)
  next
    case (Inst w)
    obtain r w' g' where m: "m (w, g\<lparr>calls := calls g @ [Call name w]\<rparr>) = (r, (w', g'))"
      by (metis prod.exhaust)
    from assms e have "flag_of (snd (m (w, g\<lparr>calls := calls g @ [Call name w]\<rparr>)))"
      unfolding preserves_def by simp
    with m have "error_occurred g'" by simp
    with Inst m show ?thesis by (simp add: on_writer_def)
  qed
qed

lemma unchanged_world_preserves: "unchanged error_occurred m \<Longrightarrow> preserves error_occurred m"
  by (simp add: unchanged_def preserves_def)

lemma emit_log_unchanged [run_intros]: "unchanged error_occurred (emit_log lv message args)"
  by (simp add: unchanged_def emit_log_def)

lemma mark_error_mono: "preserves error_occurred mark_error"
  by (simp add: preserves_def mark_error_def)

lemma put_mono: "preserves error_occurred (put lv message args kw)"
  unfolding put_def Let_def
  by (intro run_intros mark_error_mono unchanged_world_preserves on_writer_unchanged)

lemma put_plain:
  assumes "\<not> py_truthy (kw_get kw ''is_error'' (PBool False))"
  shows "unchanged error_occurred (put lv message args kw)"
  unfolding put_def Let_def using assms
  by (auto intro!: run_intros on_writer_unchanged)

lemma put_marks:
  assumes "py_truthy (kw_get kw ''is_error'' (PBool False))"
    and "kw_del ''is_error'' (kw_del ''log'' kw) = []"
  shows "error_occurred (snd (put lv message args kw g))"
proof -
  let ?rest = "thenM (on_writer ''error_occurred'' w_error_occurred)
                 (thenM (on_writer (level_name lv) (level_method lv message args))
                   (if py_truthy (kw_get kw ''log'' (PBool True)) then emit_log lv message args
                    else retM ()))"
  have p: "preserves error_occurred ?rest"
    by (intro run_intros unchanged_world_preserves on_writer_unchanged)
  have "put lv message args kw g = ?rest (g\<lparr>error_occurred := True\<rparr>)"
    using assms by (simp add: put_def Let_def thenM_def bindM_def mark_error_def)
  with p show ?thesis by (simp add: preserves_def)
qed

lemma error_mono: "preserves error_occurred (error message args kw)"
  by (simp add: error_def Let_def put_mono)

lemma reraise_unchanged [run_intros]: "unchanged error_occurred reraise"
  by (simp add: unchanged_def reraise_def)

lemma raise_choice_unchanged:
  "unchanged error_occurred
     (case v of PExcClass e \<Rightarrow> raiseM e | PObj a \<Rightarrow> raiseM Unmodelled | PExc e \<Rightarrow> raiseM e
      | _ \<Rightarrow> reraise)"
  by (cases v) (simp_all add: run_intros)

lemma exception_mono: "preserves error_occurred (exception message args kw)"
  unfolding exception_def Let_def
  by (intro run_intros put_mono unchanged_world_preserves raise_choice_unchanged)

lemma close_unchanged: "unchanged error_occurred close"
  by (simp add: close_def on_writer_unchanged w_close_flag)

lemma exit_step_unchanged:
  "unchanged error_occurred
     (\<lambda>g. if error_occurred g then (Inl (SystemExit (error_exit_code g)), g)
          else (Inl (SystemExit 0), g))"
  by (simp add: unchanged_def)

lemma close_and_exit_unchanged: "unchanged error_occurred close_and_exit"
  unfolding close_and_exit_def
  by (intro run_intros close_unchanged exit_step_unchanged)

lemma dispatch_mono: "preserves error_occurred (dispatch ext prefix name args kw)"
  unfolding preserves_def
proof (intro allI impI)
  fix g :: world
  assume e: "error_occurred g"
  show "error_occurred (snd (dispatch ext prefix name args kw g))"
  proof (cases "the_writer g")
    case (Str s)
    with e show ?thesis by (simp add: dispatch_def)
  next
    case (Inst w)
    show ?thesis
    proof (cases "map_of (handlers ext) (prefix @ ''_'' @ name)")
      case None
      with Inst e show ?thesis by (simp add: dispatch_def)
    next
      case (Some h)
      from on_writer_mono [OF handler_mono [OF Some]] e
      have "error_occurred (snd (on_writer (prefix @ ''_'' @ name) (h args kw) g))"
        by (simp add: preserves_def)
      with Inst Some show ?thesis by (simp add: dispatch_def)
    qed
  qed
qed

lemma report_mono:
  "preserves error_occurred (thenM (exception t as []) close_and_exit)"
  by (intro run_intros exception_mono unchanged_world_preserves close_and_exit_unchanged)

lemma init_mono: "preserves error_occurred (init ext command args kw)"
  unfolding preserves_def
proof (intro allI impI)
  fix g :: world
  assume e: "error_occurred g"
  obtain r g1 where d: "dispatch ext ''init'' command args kw g = (r, g1)"
    by (metis prod.exhaust)
  from dispatch_mono [of ext "''init''" command args kw] e d have e1: "error_occurred g1"
    by (auto simp: preserves_def)
  from report_mono e1 have
    "error_occurred (snd (thenM (exception unsupported_template
        [PStr (class_name (the_writer g1)), PStr command] []) close_and_exit g1))"
    by (simp add: preserves_def)
  with d e1 show "error_occurred (snd (init ext command args kw g))"
    by (cases r) (simp_all add: init_def)
qed

lemma result_mono: "preserves error_occurred (result ext command args kw)"
  unfolding preserves_def
proof (intro allI impI)
  fix g :: world
  assume e: "error_occurred g"
  obtain r g1 where d: "dispatch ext ''result'' command args kw g = (r, g1)"
    by (metis prod.exhaust)
  from dispatch_mono [of ext "''result''" command args kw] e d have e1: "error_occurred g1"
    by (auto simp: preserves_def)
  from report_mono e1 have
    "error_occurred (snd (thenM (exception unsupported_template
        [PStr (class_name (the_writer g1)), PStr command] []) close_and_exit g1))"
    by (simp add: preserves_def)
  with d e1 show "error_occurred (snd (result ext command args kw g))"
    by (cases r) (simp_all add: result_def)
qed

lemma set_slot_unchanged [run_intros]: "unchanged error_occurred (set_slot sl)"
  by (simp add: unchanged_def set_slot_def)

lemma construct_unchanged [run_intros]: "unchanged error_occurred (construct c args kw)"
  unfolding construct_def
  by (intro run_intros) (simp add: unchanged_def)

lemma set_output_writer_unchanged:
  "unchanged error_occurred (set_output_writer nw args kw)"
  unfolding set_output_writer_def
  by (cases nw) (auto intro!: run_intros on_writer_unchanged split: option.splits)

lemma perform_mono: "preserves error_occurred (perform ext x)"
  by (cases x)
     (simp_all add: debug_def info_def warning_def put_mono error_mono exception_mono init_mono
        result_mono unchanged_world_preserves close_unchanged close_and_exit_unchanged
        set_output_writer_unchanged)

lemma run_ops_mono: "error_occurred g \<Longrightarrow> error_occurred (run_ops ext xs g)"
proof (induction xs arbitrary: g)
  case Nil
  then show ?case by simp
next
  case (Cons x xs)
  from perform_mono [of ext x] Cons.prems have "error_occurred (snd (perform ext x g))"
    by (simp add: preserves_def)
  then show ?case using Cons.IH by simp
qed

subsection \<open>The report of an unsupported command\<close>


lemma same_writer: "the_writer g = Inst w \<Longrightarrow> g\<lparr>the_writer := Inst w\<rparr> = g"
  by (cases g) simp



lemma close_and_exit_run:
  assumes "the_writer g = Inst w"
  shows "\<exists>g'. close g = (Inr (), g')
           \<and> calls g' = calls g @ [Call ''close'' w]
           \<and> error_occurred g' = error_occurred g
           \<and> close_and_exit g =
               (Inl (SystemExit (if error_occurred g' then error_exit_code g' else 0)), g')"
proof -
  from w_close_run [of w "g\<lparr>calls := calls g @ [Call ''close'' w]\<rparr>"]
  obtain g1 where g1: "w_close (w, g\<lparr>calls := calls g @ [Call ''close'' w]\<rparr>) = (Inr (), (w, g1))"
    and e: "error_occurred g1 = error_occurred g"
    and c: "calls g1 = calls g @ [Call ''close'' w]"
    by auto
  let ?g' = "g1\<lparr>the_writer := Inst w\<rparr>"
  have cl: "close g = (Inr (), ?g')"
    using assms g1 by (simp add: close_def on_writer_def)
  have "close_and_exit g =
          (Inl (SystemExit (if error_occurred ?g' then error_exit_code ?g' else 0)), ?g')"
    using cl by (simp add: close_and_exit_def thenM_run)
  with cl e c show ?thesis by auto
qed


lemma init_commands:
  "(map_of (handlers ext) (''init_'' @ command) = None) =
     (command \<notin> {''check'', ''list_backup'', ''status'', ''list_server'', ''show_server''})"
  by (simp add: handlers_def)

lemma result_commands:
  "(map_of (handlers ext) (''result_'' @ command) = None) =
     (command \<notin> {''backup'', ''check'', ''list_backup'', ''show_backup'', ''status'',
                   ''list_server'', ''show_server''})"
  by (simp add: handlers_def)

lemma construct_run:
  "(\<exists>e. construct c args kw g = (Inl e, g))
   \<or> (\<exists>w2. construct c args kw g = (Inr w2, g\<lparr>calls := calls g @ [Call ''__init__'' w2]\<rparr>)
            \<and> cls w2 = c)"
  by (auto simp: construct_def bindM_run liftE_def new_writer_obj_def split: sum.splits)

lemma nagios_writer: "the_writer nagios_world = Inst nagios_scenario"
  by (simp add: nagios_world_def)

subsection \<open>What info prints\<close>

named_theorems out_intros

lemma appends_outD:
  assumes "appends_out m" and "m (w, g) = (r, (w', g'))"
  shows "w' = w \<and> (\<exists>pre. stdout g' = stdout g @ pre)"
  using assms unfolding appends_out_def by (metis fst_conv snd_conv)

lemma appends_retM [out_intros]: "appends_out (retM x)"
  by (simp add: appends_out_def retM_def)

lemma appends_raiseM [out_intros]: "appends_out (raiseM e)"
  by (simp add: appends_out_def raiseM_def)

lemma appends_liftE [out_intros]: "appends_out (liftE r)"
  by (simp add: appends_out_def liftE_def)

lemma appends_bindM [out_intros]:
  assumes "appends_out m" and "\<And>x. appends_out (f x)"
  shows "appends_out (bindM m f)"
  unfolding appends_out_def
proof (intro allI)
  fix w g
  obtain r w1 g1 where m: "m (w, g) = (r, (w1, g1))" by (metis prod.exhaust)
  from appends_outD [OF assms(1) m] obtain p1 where w1: "w1 = w" and p1: "stdout g1 = stdout g @ p1"
    by blast
  show "fst (snd (bindM m f (w, g))) = w
        \<and> (\<exists>pre. stdout (snd (snd (bindM m f (w, g)))) = stdout g @ pre)"
  proof (cases r)
    case (Inl e)
    with m w1 p1 show ?thesis by (simp add: bindM_def)
  next
    case (Inr x)
    obtain r2 w2 g2 where f: "f x (w1, g1) = (r2, (w2, g2))" by (metis prod.exhaust)
    from appends_outD [OF assms(2) f] obtain p2 where "w2 = w1" and "stdout g2 = stdout g1 @ p2"
      by blast
    with m Inr f w1 p1 show ?thesis by (simp add: bindM_def)
  qed
qed

lemma appends_thenM [out_intros]:
  "appends_out m \<Longrightarrow> appends_out n \<Longrightarrow> appends_out (thenM m n)"
  by (simp add: thenM_def appends_bindM)

lemma appends_seqM [out_intros]:
  "(\<And>m. m \<in> set ms \<Longrightarrow> appends_out m) \<Longrightarrow> appends_out (seqM ms)"
  by (induction ms) (auto intro: out_intros)

lemma appends_if [out_intros]:
  "(c \<Longrightarrow> appends_out a) \<Longrightarrow> (\<not> c \<Longrightarrow> appends_out b) \<Longrightarrow> appends_out (if c then a else b)"
  by simp

lemma appends_w_info [out_intros]: "appends_out (w_info message args)"
  by (auto simp: appends_out_def w_info_def out_def split: writer_class.splits sum.splits)

lemma appends_info_key [out_intros]: "appends_out (info_key t data k)"
  unfolding info_key_def by (intro out_intros)

lemma appends_tablespace_line [out_intros]: "appends_out (tablespace_line item)"
  unfolding tablespace_line_def by (intro out_intros)

lemma appends_details [out_intros]: "appends_out (show_backup_details ext data)"
  unfolding show_backup_details_def
  by (intro out_intros) (auto intro!: out_intros)

















lemma fmt_tuple_plain: "CHR ''%'' \<notin> set q \<Longrightarrow> fmt_tuple q [] = Inr q"
proof (induction q)
  case Nil
  show ?case by simp
next
  case (Cons c q)
  then have c: "c \<noteq> CHR ''%''" and ih: "fmt_tuple q [] = Inr q" by auto
  show ?case
  proof (cases q)
    case Nil
    with c show ?thesis by (simp add: prepend_def)
  next
    case (Cons d cs)
    with c ih show ?thesis by (simp add: prepend_def)
  qed
qed

lemma fmt_tuple_mid:
  assumes "CHR ''%'' \<notin> set p" and "CHR ''%'' \<notin> set q"
  shows "fmt_tuple (p @ CHR ''%'' # CHR ''s'' # q) [v]
           = (case py_str v of Inl e \<Rightarrow> Inl e | Inr s \<Rightarrow> Inr (p @ s @ q))"
  using assms(1)
proof (induction p)
  case Nil
  show ?case
    using fmt_tuple_plain [OF assms(2)]
    by (simp add: then_prepend_def prepend_def split: sum.splits)
next
  case (Cons c p)
  obtain d cs where dc: "p @ CHR ''%'' # CHR ''s'' # q = d # cs" by (cases p) auto
  from Cons.prems have "c \<noteq> CHR ''%''" by auto
  then have "fmt_tuple ((c # p) @ CHR ''%'' # CHR ''s'' # q) [v] = prepend [c] (fmt_tuple (p @ CHR ''%'' # CHR ''s'' # q) [v])"
    using dc by simp
  with Cons show ?case by (simp add: prepend_def split: sum.splits)
qed

lemma fmt_dict_mid:
  "CHR ''%'' \<notin> set p \<Longrightarrow> fmt_dict (p @ CHR ''%'' # CHR ''s'' # q) m = Inl Unmodelled"
proof (induction p)
  case Nil
  show ?case by simp
next
  case (Cons c p)
  obtain d cs where dc: "p @ CHR ''%'' # CHR ''s'' # q = d # cs" by (cases p) auto
  from Cons.prems have "c \<noteq> CHR ''%''" by auto
  then have "fmt_dict ((c # p) @ CHR ''%'' # CHR ''s'' # q) m = prepend [c] (fmt_dict (p @ CHR ''%'' # CHR ''s'' # q) m)"
    using dc by simp
  with Cons show ?case by (simp add: prepend_def)
qed

lemma format_message_mid:
  assumes "CHR ''%'' \<notin> set p" and "CHR ''%'' \<notin> set q"
  shows "format_message (p @ CHR ''%'' # CHR ''s'' # q) [v]
           = (case py_str v of Inl e \<Rightarrow> Inl e | Inr s \<Rightarrow> Inr (p @ s @ q))"
proof (cases "is_dict v")
  case True
  then obtain m where "v = PDict m" by (cases v) auto
  with assms show ?thesis by (simp add: format_message_def py_mod_def fmt_dict_mid)
next
  case False
  with assms show ?thesis by (simp add: format_message_def py_mod_def fmt_tuple_mid)
qed



















text \<open>
  The retention status is read with \<open>data['retention_policy_status']\<close>: when the key itself
  is missing the catalog lines are not printed and KeyError is raised.
\<close>

lemma catalog_without_retention_key:
  assumes "map_of data ''retention_policy_status'' = None"
  shows "fst (show_backup_catalog data (w, g)) = Inl KeyError"
  using assms
  by (simp add: show_backup_catalog_def thenM_run w_info_no_args get_item_def raiseM_def)

subsection \<open>The init handlers raise no ValueError\<close>

lemma nve_retM: "no_value_error (retM x)"
  by (simp add: no_value_error_def retM_def)

lemma nve_bindM_liftE:
  assumes "r \<noteq> Inl ValueError" and "\<And>x. r = Inr x \<Longrightarrow> no_value_error (f x)"
  shows "no_value_error (bindM (liftE r) f)"
proof (cases r)
  case (Inl e)
  with assms(1) show ?thesis by (simp add: no_value_error_def raiseM_def)
next
  case (Inr x)
  with assms(2) show ?thesis by simp
qed

lemma bind_rest_no_value_error: "bind_rest ps kw \<noteq> Inl ValueError"
  by (induction ps kw rule: bind_rest.induct)
     (auto simp: bindE_def split: option.splits sum.splits)

lemma bind_args_no_value_error: "bind_args ps args kw \<noteq> Inl ValueError"
  using bind_rest_no_value_error [of "drop (length args) ps" kw]
  by (auto simp: bind_args_def bindE_def split: sum.splits)

lemma as_str_no_value_error: "as_str v \<noteq> Inl ValueError"
  by (cases v) simp_all

lemma as_bool_no_value_error: "as_bool v \<noteq> Inl ValueError"
  by (cases v) simp_all

lemma nve_w_info_plain: "no_value_error (w_info message [])"
  by (simp add: no_value_error_def w_info_no_args)

lemma nve_init_status: "no_value_error (init_status server_name)"
proof -
  have "format_message ''Server %s:'' [PStr server_name] = Inr (''Server '' @ server_name @ '':'')"
    using format_message_mid [of "''Server ''" "'':''" "PStr server_name"] by simp
  then show ?thesis
    by (auto simp: no_value_error_def init_status_def w_info_def out_def
          split: writer_class.splits)
qed

lemma nve_set_minimal: "no_value_error (\<lambda>(w, g). (Inr (), (w\<lparr>minimal := b\<rparr>, g)))"
  by (simp add: no_value_error_def split_def)

lemma init_handlers_no_value_error:
  assumes "map_of (handlers ext) (''init_'' @ command) = Some h"
  shows "fst (h args kw s) \<noteq> Inl ValueError"
proof -
  note step = nve_bindM_liftE bind_args_no_value_error as_str_no_value_error
    as_bool_no_value_error
  have a: "no_value_error (call_init_check args kw)"
    unfolding call_init_check_def init_check_def by (intro step nve_w_info_plain)
  have b: "no_value_error (call_init_list_backup args kw)"
    unfolding call_init_list_backup_def init_list_backup_def by (intro step nve_set_minimal)
  have c: "no_value_error (call_init_status args kw)"
    unfolding call_init_status_def by (intro step nve_init_status)
  have d: "no_value_error (call_init_list_server args kw)"
    unfolding call_init_list_server_def init_list_server_def by (intro step nve_set_minimal)
  have e: "no_value_error (call_init_show_server args kw)"
    unfolding call_init_show_server_def init_show_server_def by (intro step nve_w_info_plain)
  from assms have "h \<in> {call_init_check, call_init_list_backup, call_init_status,
                         call_init_list_server, call_init_show_server}"
    by (auto simp: handlers_def split: if_splits)
  with a b c d e show ?thesis by (cases s) (auto simp: no_value_error_def)
qed

section \<open>The message formatter: which substitution is applied\<close>

text \<open>
  Claim C5. For every template \<open>t\<close> and argument tuple: a tuple of exactly one element
  that is a mapping \<open>m\<close> gives \<open>t % m\<close>; any other non-empty tuple \<open>args\<close> gives
  \<open>t % args\<close>; the empty tuple gives \<open>t\<close> unchanged.
\<close>

theorem format_message_cases:
  "format_message t [PDict m] = py_mod t (PDict m)
   \<and> (args \<noteq> [] \<and> (\<forall>m. args \<noteq> [PDict m]) \<longrightarrow>
        format_message t args = py_mod t (PTuple args))
   \<and> format_message t [] = Inr t"
proof (intro conjI impI)
  show "format_message t [PDict m] = py_mod t (PDict m)"
    by (simp add: format_message_def)
next
  assume a: "args \<noteq> [] \<and> (\<forall>m. args \<noteq> [PDict m])"
  then obtain x xs where xs: "args = x # xs" by (cases args) auto
  show "format_message t args = py_mod t (PTuple args)"
  proof (cases "xs = []")
    case True
    with a xs have "\<not> is_dict x" by (cases x) auto
    with xs True show ?thesis by (simp add: format_message_def)
  next
    case False
    with xs show ?thesis by (simp add: format_message_def)
  qed
next
  show "format_message t [] = Inr t"
    by (simp add: format_message_def)
qed

text \<open>
  The three cases at concrete inputs: a mapping, two positional arguments, and a
  template with a literal percent sign and no argument.
\<close>

theorem format_message_cases_witness:
  "format_message ''%(k)s!'' [PDict [(''k'', PStr ''v'')]] = Inr ''v!''
   \<and> format_message ''%s-%d'' [PStr ''a'', PInt 2] = Inr ''a-2''
   \<and> format_message ''100%'' [] = Inr ''100%''"
  using format_message_cases [of "''%(k)s!''" "[(''k'', PStr ''v'')]" "[]"]
        format_message_cases [of "''%s-%d''" "[]" "[PStr ''a'', PInt 2]"]
        format_message_cases [of "''100%''" "[]" "[]"]
  by (simp add: py_mod_def prepend_def then_prepend_def show_int_def show_nat.simps digit_char_def)

section \<open>The aggregate status of the Nagios writer\<close>

lemma scan_checks_sets:
  "scan_checks items issues servers = (issues', servers') \<Longrightarrow>
   distinct issues \<Longrightarrow> distinct servers \<Longrightarrow>
   distinct issues' \<and> distinct servers'
   \<and> set issues' = set issues \<union> {cr_server_name r | r. r \<in> set items \<and> \<not> cr_status r}
   \<and> set servers' = set servers \<union> cr_server_name ` set items"
proof (induction items arbitrary: issues servers)
  case Nil
  then show ?case by simp
next
  case (Cons item items)
  let ?servers = "if cr_server_name item \<notin> set servers
                  then servers @ [cr_server_name item] else servers"
  let ?issues = "if \<not> cr_status item \<and> cr_server_name item \<notin> set issues
                 then issues @ [cr_server_name item] else issues"
  from Cons.prems(1) have step: "scan_checks items ?issues ?servers = (issues', servers')"
    by (simp add: Let_def)
  have d1: "distinct ?issues" using Cons.prems(2) by simp
  have d2: "distinct ?servers" using Cons.prems(3) by simp
  from Cons.IH [OF step d1 d2]
  have ih: "distinct issues' \<and> distinct servers'
     \<and> set issues' = set ?issues \<union> {cr_server_name r | r. r \<in> set items \<and> \<not> cr_status r}
     \<and> set servers' = set ?servers \<union> cr_server_name ` set items" .
  have s1: "set ?issues \<union> {cr_server_name r | r. r \<in> set items \<and> \<not> cr_status r}
            = set issues \<union> {cr_server_name r | r. r \<in> set (item # items) \<and> \<not> cr_status r}"
    by auto
  have s2: "set ?servers \<union> cr_server_name ` set items
            = set servers \<union> cr_server_name ` set (item # items)"
    by auto
  from ih s1 s2 show ?case by simp
qed

lemma scan_checks_counts:
  assumes "scan_checks items [] [] = (issues, servers)"
  shows "length issues = card (failed_servers items)"
    and "length servers = card (seen_servers items)"
    and "set issues = failed_servers items"
proof -
  from scan_checks_sets [OF assms]
  have d: "distinct issues" "distinct servers"
    and i: "set issues = failed_servers items"
    and s: "set servers = seen_servers items"
    by (simp_all add: failed_servers_def seen_servers_def)
  show "length issues = card (failed_servers items)"
    using d(1) i distinct_card by metis
  show "length servers = card (seen_servers items)"
    using d(2) s distinct_card by metis
  show "set issues = failed_servers items" by (rule i)
qed

lemma failed_servers_filter:
  "failed_servers rs = cr_server_name ` set (filter (\<lambda>r. \<not> cr_status r) rs)"
  by (auto simp: failed_servers_def)

lemma failed_scenario: "failed_servers scenario_checks = {''pg1''}"
  by (simp add: failed_servers_filter scenario_checks_def)

lemma seen_scenario: "seen_servers scenario_checks = {''pg1'', ''pg2''}"
  by (auto simp: seen_servers_def scenario_checks_def)

lemma scan_scenario: "scan_checks scenario_checks [] [] = ([''pg1''], [''pg1'', ''pg2''])"
  by (simp add: scenario_checks_def)

text \<open>
  Claim C2. For every accumulated list of CheckResult records, \<open>close()\<close> of the Nagios
  writer counts the distinct server names and the distinct server names with a failed
  check. If there is a failed server it prints the one line
  \<open>BARMAN CRITICAL - <failed> server out of <total> has issues\<close> and sets
  \<open>error_exit_code\<close> to 2; otherwise it prints
  \<open>BARMAN OK - Ready to serve the Espresso backup\<close> and leaves \<open>error_exit_code\<close> as it
  is. Nothing else changes.
\<close>

theorem nagios_close_summary:
  assumes "cls w = NagiosOutputWriter"
  shows "w_close (w, g) =
     (Inr (), (w,
        if failed_servers (result_check_list w) \<noteq> {} then
          g\<lparr>stdout := stdout g @
               [''BARMAN CRITICAL - '' @ show_nat (card (failed_servers (result_check_list w)))
                  @ '' server out of '' @ show_nat (card (seen_servers (result_check_list w)))
                  @ '' has issues''],
            error_exit_code := 2\<rparr>
        else g\<lparr>stdout := stdout g @ [''BARMAN OK - Ready to serve the Espresso backup'']\<rparr>))"
proof -
  obtain issues servers where sc: "scan_checks (result_check_list w) [] [] = (issues, servers)"
    by (cases "scan_checks (result_check_list w) [] []") auto
  note li = scan_checks_counts(1) [OF sc] and ls = scan_checks_counts(2) [OF sc]
  from scan_checks_counts(3) [OF sc]
  have e: "(issues = []) = (failed_servers (result_check_list w) = {})"
    by (cases issues) auto
  show ?thesis
  proof (cases "issues = []")
    case True
    with e have "failed_servers (result_check_list w) = {}" by simp
    with True assms sc show ?thesis by (simp add: w_close_def nagios_close_def)
  next
    case False
    with e have "failed_servers (result_check_list w) \<noteq> {}" by simp
    with False assms sc li [symmetric] ls [symmetric] show ?thesis
      by (simp add: w_close_def nagios_close_def)
  qed
qed

text \<open>The scenario of the specification: one failed server out of two, exit code 2.\<close>

theorem nagios_close_summary_witness:
  "w_close (nagios_scenario, initial_world)
   = (Inr (), (nagios_scenario,
        initial_world\<lparr>stdout := [''BARMAN CRITICAL - 1 server out of 2 has issues''],
                      error_exit_code := 2\<rparr>))"
  using nagios_close_summary [of nagios_scenario initial_world]
  by (simp add: nagios_scenario_def new_writer_obj_def failed_scenario seen_scenario
        show_nat.simps digit_char_def initial_world_def)

section \<open>Recording a check\<close>

text \<open>
  Claim C6. Every call of \<open>result_check\<close> appends the CheckResult record to the
  writer's \<open>result_check_list\<close>; with \<open>status = False\<close> the process-wide
  \<open>error_occurred\<close> becomes true, with \<open>status = True\<close> it keeps its value. The call
  returns, and the only other effect is the line the console prints.
\<close>

theorem result_check_records:
  "result_check server_name check status hint (w, g) =
     (Inr (),
      (w\<lparr>result_check_list := result_check_list w @
           [\<lparr>cr_server_name = server_name, cr_check = check, cr_status = status,
             cr_hint = hint\<rparr>]\<rparr>,
       g\<lparr>error_occurred := (if status then error_occurred g else True),
         stdout := stdout g @
           (if cls w = ConsoleOutputWriter \<and> \<not> quiet_opt w then
              [[CHR 0x09] @ check @ '': '' @ (if status then ''OK'' else ''FAILED'')
                 @ (case hint of None \<Rightarrow> [] | Some h \<Rightarrow> if h = [] then [] else '' ('' @ h @ '')'')]
            else [])\<rparr>))"
  by (cases hint)
     (simp_all add: result_check_def record_check_def thenM_run hint_truthy_def w_info_no_args)

text \<open>A failed check with a hint on the console, and a passed one.\<close>

theorem result_check_records_witness:
  "result_check ''pg1'' ''ssh'' False (Some ''no route'') (console0, initial_world)
   = (Inr (),
      (console0
         \<lparr>result_check_list := [\<lparr>cr_server_name = ''pg1'', cr_check = ''ssh'', cr_status = False,
                                 cr_hint = Some ''no route''\<rparr>]\<rparr>,
       initial_world\<lparr>error_occurred := True,
                     stdout := [CHR 0x09 # ''ssh: FAILED (no route)'']\<rparr>))
   \<and> error_occurred (snd (snd (result_check ''pg1'' ''ssh'' True None
         (console0, initial_world)))) = False"
  using result_check_records [of "''pg1''" "''ssh''" False "Some ''no route''" console0 initial_world]
        result_check_records [of "''pg1''" "''ssh''" True None console0 initial_world]
  by (simp add: console0_def new_writer_obj_def initial_world_def)

section \<open>Closing and leaving\<close>

text \<open>
  Claim C3. \<open>close_and_exit()\<close> first calls \<open>close()\<close> on the active writer and then
  terminates the process: with \<open>error_exit_code\<close> as the exit status when the global
  error state is set, with 0 otherwise. (The values are those after \<open>close()\<close>, which
  may have raised the exit code to 2 and never changes the error state.)
\<close>

theorem close_and_exit_status:
  assumes "the_writer g = Inst w"
  shows "\<exists>g'. close g = (Inr (), g')
           \<and> calls g' = calls g @ [Call ''close'' w]
           \<and> error_occurred g' = error_occurred g
           \<and> close_and_exit g =
               (Inl (SystemExit (if error_occurred g' then error_exit_code g' else 0)), g')"
  using assms by (rule close_and_exit_run)

text \<open>
  Exit status 2 after the Nagios scenario with the error state set, 0 for a fresh
  console, 1 for a console with the error state set.
\<close>

theorem close_and_exit_status_witness:
  "fst (close_and_exit (initial_world\<lparr>the_writer := Inst nagios_scenario, error_occurred := True\<rparr>))
     = Inl (SystemExit 2)
   \<and> fst (close_and_exit initial_world) = Inl (SystemExit 0)
   \<and> fst (close_and_exit (initial_world\<lparr>error_occurred := True\<rparr>)) = Inl (SystemExit 1)"
  using close_and_exit_status [of "initial_world\<lparr>the_writer := Inst nagios_scenario, error_occurred := True\<rparr>" nagios_scenario]
    close_and_exit_status [of initial_world console0]
    close_and_exit_status [of "initial_world\<lparr>error_occurred := True\<rparr>" console0]
  by (auto simp: initial_world_def close_def on_writer_def w_close_def nagios_close_def
        nagios_scenario_def console0_def new_writer_obj_def scan_scenario)

subsection \<open>The scenario of the specification, from the first call to the exit\<close>

text \<open>
  After the four checks the Nagios writer holds the four records, the error state is set
  and nothing has been printed; \<open>close_and_exit\<close> then prints the aggregate line and
  leaves with status 2.
\<close>

lemma scenario_state:
  "the_writer (run_ops plain_externals scenario_ops initial_world) = Inst nagios_scenario
   \<and> error_occurred (run_ops plain_externals scenario_ops initial_world)
   \<and> error_exit_code (run_ops plain_externals scenario_ops initial_world) = 1
   \<and> stdout (run_ops plain_externals scenario_ops initial_world) = []"
  by (simp add: scenario_ops_def set_output_writer_def init_def result_def dispatch_def
        Let_def handlers_def on_writer_def thenM_run bindM_run set_slot_def w_close_def
        call_init_check_def call_result_check_def bind_args_def bindE_def arg_def liftE_def
        init_check_def result_check_def record_check_def hint_truthy_def w_info_no_args
        new_writer_obj_def initial_world_def nagios_scenario_def scenario_checks_def)

lemma scenario_exit:
  "\<exists>g'. close_and_exit (run_ops plain_externals scenario_ops initial_world)
          = (Inl (SystemExit 2), g')
        \<and> stdout g' = [''BARMAN CRITICAL - 1 server out of 2 has issues'']"
proof -
  let ?g = "run_ops plain_externals scenario_ops initial_world"
  from scenario_state have w: "the_writer ?g = Inst nagios_scenario"
    and e: "error_occurred ?g" and o: "stdout ?g = []" by simp_all
  have "w_close (nagios_scenario, ?g\<lparr>calls := calls ?g @ [Call ''close'' nagios_scenario]\<rparr>)
          = (Inr (), (nagios_scenario,
               ?g\<lparr>calls := calls ?g @ [Call ''close'' nagios_scenario],
                   stdout := [''BARMAN CRITICAL - 1 server out of 2 has issues''],
                   error_exit_code := 2\<rparr>))"
    using o by (simp add: w_close_def nagios_close_def nagios_scenario_def new_writer_obj_def
                  scan_scenario show_nat.simps digit_char_def)
  with w e show ?thesis
    by (simp add: close_and_exit_def close_def on_writer_def thenM_run)
qed

section \<open>The error state is never reset\<close>

text \<open>
  Claim C8. The global error state is monotonic: once \<open>error_occurred\<close> is true, no
  function of the module (the five message functions, \<open>init\<close>, \<open>result\<close>, \<open>close\<close>,
  \<open>close_and_exit\<close>, \<open>set_output_writer\<close>), no sequence of them, and no method of a
  writer (a message method, the \<open>error_occurred\<close> hook, a command handler, \<open>close\<close>)
  makes it false again, whether the call returns or raises.
\<close>

theorem error_state_monotonic:
  assumes "error_occurred g"
  shows "error_occurred (snd (perform ext x g))
       \<and> error_occurred (run_ops ext xs g)
       \<and> (map_of (handlers ext) name = Some h \<longrightarrow>
             error_occurred (snd (snd (h args kw (w, g)))))
       \<and> error_occurred (snd (snd (level_method lv message margs (w, g))))
       \<and> error_occurred (snd (snd (w_error_occurred (w, g))))
       \<and> error_occurred (snd (snd (w_close (w, g))))"
proof (intro conjI impI)
  show "error_occurred (snd (perform ext x g))"
    using perform_mono [of ext x] assms by (simp add: preserves_def)
  show "error_occurred (run_ops ext xs g)"
    using assms by (rule run_ops_mono)
  show "error_occurred (snd (snd (h args kw (w, g))))"
    if "map_of (handlers ext) name = Some h"
    using handler_mono [OF that, of args kw] assms by (simp add: preserves_def)
  show "error_occurred (snd (snd (level_method lv message margs (w, g))))"
    using level_method_flag [of lv message margs] assms by (simp add: unchanged_def)
  show "error_occurred (snd (snd (w_error_occurred (w, g))))"
    using w_error_occurred_flag assms by (simp add: unchanged_def)
  show "error_occurred (snd (snd (w_close (w, g))))"
    using w_close_flag assms by (simp add: unchanged_def)
qed

lemma after_error_flag: "error_occurred after_error"
  by (simp add: after_error_def error_def put_def Let_def kw_get_def kw_del_def
        kw_setdefault_def thenM_run mark_error_def on_writer_def initial_world_def
        w_error_occurred_def retM_def w_error_def err_def new_writer_obj_def emit_log_def)

text \<open>
  After an error message the flag is set, and it is still set after an info message, a
  passed check, an ignored error, a change of writer and a close.
\<close>

theorem error_state_monotonic_witness:
  "error_occurred after_error
   \<and> error_occurred (run_ops plain_externals
        [Op_info ''fine'' [] [],
         Op_result ''check'' [PStr ''pg1'', PStr ''ssh'', PBool True] [],
         Op_error ''ignored'' [] [(''ignore'', PBool True)],
         Op_set_output_writer (ByName ''console'') [] [],
         Op_close] after_error)
   \<and> error_occurred (snd (snd (call_result_check [PStr ''pg1'', PStr ''ssh'', PBool True] []
         (console0, after_error))))"
  using error_state_monotonic [OF after_error_flag, of plain_externals "Op_close"
      "[Op_info ''fine'' [] [],
         Op_result ''check'' [PStr ''pg1'', PStr ''ssh'', PBool True] [],
         Op_error ''ignored'' [] [(''ignore'', PBool True)],
         Op_set_output_writer (ByName ''console'') [] [],
         Op_close]" "''result_check''" call_result_check
      "[PStr ''pg1'', PStr ''ssh'', PBool True]" "[]" console0 L_info "[]" "[]"]
    after_error_flag
  by (simp add: handlers_def)

lemma map_of_kw_del: "map_of (kw_del k kw) k' = (if k' = k then None else map_of kw k')"
  by (induction kw) (auto simp: kw_del_def)

lemma keys_kw_del: "fst ` set (kw_del k kw) = fst ` set kw - {k}"
  by (induction kw) (auto simp: kw_del_def)

lemma map_of_absent: "k \<notin> fst ` set kw \<Longrightarrow> map_of kw k = None"
  by (simp add: map_of_eq_None_iff)

lemma keys_left: "A \<subseteq> {l} \<Longrightarrow> B = A \<union> {e} \<Longrightarrow> B - {l} - {e} = {}"
  by auto

lemma no_keys_empty: "fst ` set kw = {} \<Longrightarrow> kw = []"
  by simp

lemma error_flag_when_known:
  assumes keys: "set (map fst kw) \<subseteq> {''ignore'', ''log''}"
  shows "error_occurred (snd (error message args kw g)) =
           (if py_truthy (kw_get kw ''ignore'' (PBool False)) then error_occurred g else True)"
proof -
  let ?kw1 = "kw_del ''ignore'' kw"
  have k1: "fst ` set ?kw1 \<subseteq> {''log''}"
    using keys unfolding keys_kw_del by auto
  then have n1: "map_of ?kw1 ''is_error'' = None"
    by (intro map_of_absent) auto
  show ?thesis
  proof (cases "py_truthy (kw_get kw ''ignore'' (PBool False))")
    case True
    have "\<not> py_truthy (kw_get ?kw1 ''is_error'' (PBool False))"
      using n1 by (simp add: kw_get_def)
    from put_plain [OF this, of L_error message args] True show ?thesis
      by (simp add: error_def Let_def unchanged_def)
  next
    case False
    let ?kw2 = "?kw1 @ [(''is_error'', PBool True)]"
    have t: "py_truthy (kw_get ?kw2 ''is_error'' (PBool False))"
      using n1 by (simp add: kw_get_def map_add_def)
    have a: "fst ` set ?kw2 = fst ` set ?kw1 \<union> {''is_error''}"
      by simp
    have "fst ` set (kw_del ''is_error'' (kw_del ''log'' ?kw2))
            = fst ` set ?kw2 - {''log''} - {''is_error''}"
      by (simp only: keys_kw_del)
    with keys_left [OF k1 a] have "fst ` set (kw_del ''is_error'' (kw_del ''log'' ?kw2)) = {}"
      by (simp only:)
    then have r: "kw_del ''is_error'' (kw_del ''log'' ?kw2) = []"
      by (rule no_keys_empty)
    from put_marks [OF t r, of L_error message args g] False n1 show ?thesis
      by (simp add: error_def Let_def kw_setdefault_def)
  qed
qed

lemma exception_then_flag:
  "error_occurred (snd (thenM m
      (if c then (case v of PExcClass e \<Rightarrow> raiseM e | PObj a \<Rightarrow> raiseM Unmodelled
                  | PExc e \<Rightarrow> raiseM e | _ \<Rightarrow> reraise) else retM ()) g))
   = error_occurred (snd (m g))"
proof -
  let ?n = "if c then (case v of PExcClass e \<Rightarrow> raiseM e | PObj a \<Rightarrow> raiseM Unmodelled
                  | PExc e \<Rightarrow> raiseM e | _ \<Rightarrow> reraise) else retM ()"
  have u: "unchanged error_occurred ?n"
    by (intro run_intros raise_choice_unchanged)
  obtain r g' where m: "m g = (r, g')" by (metis prod.exhaust)
  from u have "error_occurred (snd (?n g')) = error_occurred g'"
    by (simp add: unchanged_def)
  with m show ?thesis by (cases r) (simp_all add: thenM_run)
qed

lemma exception_flag_when_known:
  assumes keys: "set (map fst kw) \<subseteq> {''ignore'', ''log'', ''raise_exception''}"
  shows "error_occurred (snd (exception message args kw g)) =
           (if py_truthy (kw_get kw ''ignore'' (PBool False)) then error_occurred g else True)"
proof -
  let ?kw2 = "kw_del ''raise_exception'' (kw_del ''ignore'' kw)"
  have k1: "fst ` set ?kw2 \<subseteq> {''log''}"
    using keys unfolding keys_kw_del by auto
  then have n1: "map_of ?kw2 ''is_error'' = None"
    by (intro map_of_absent) auto
  show ?thesis
  proof (cases "py_truthy (kw_get kw ''ignore'' (PBool False))")
    case True
    have "\<not> py_truthy (kw_get ?kw2 ''is_error'' (PBool False))"
      using n1 by (simp add: kw_get_def)
    from put_plain [OF this, of L_exception message args] True show ?thesis
      by (simp add: exception_def Let_def exception_then_flag unchanged_def)
  next
    case False
    let ?kw3 = "?kw2 @ [(''is_error'', PBool True)]"
    have t: "py_truthy (kw_get ?kw3 ''is_error'' (PBool False))"
      using n1 by (simp add: kw_get_def map_add_def)
    have a: "fst ` set ?kw3 = fst ` set ?kw2 \<union> {''is_error''}"
      by simp
    have "fst ` set (kw_del ''is_error'' (kw_del ''log'' ?kw3))
            = fst ` set ?kw3 - {''log''} - {''is_error''}"
      by (simp only: keys_kw_del)
    with keys_left [OF k1 a] have "fst ` set (kw_del ''is_error'' (kw_del ''log'' ?kw3)) = {}"
      by (simp only:)
    then have r: "kw_del ''is_error'' (kw_del ''log'' ?kw3) = []"
      by (rule no_keys_empty)
    from put_marks [OF t r, of L_exception message args g] False n1 show ?thesis
      by (simp add: exception_def Let_def kw_setdefault_def exception_then_flag)
  qed
qed

section \<open>Error messages and the error state\<close>

text \<open>
  Claim C1, as amended. For every call of \<open>error\<close> whose keyword options are among
  \<open>ignore\<close> and \<open>log\<close>, and every call of \<open>exception\<close> whose keyword options are among
  \<open>ignore\<close>, \<open>log\<close> and \<open>raise_exception\<close>: after the call \<open>error_occurred\<close> is true
  when \<open>ignore\<close> is false (its default), and has the value it had before when \<open>ignore\<close>
  is true. This holds whether the call returns or raises.
\<close>

theorem error_flag_iff_not_ignored:
  "(set (map fst kw) \<subseteq> {''ignore'', ''log''} \<longrightarrow>
      error_occurred (snd (error message args kw g)) =
        (if py_truthy (kw_get kw ''ignore'' (PBool False)) then error_occurred g else True))
   \<and> (set (map fst kw) \<subseteq> {''ignore'', ''log'', ''raise_exception''} \<longrightarrow>
      error_occurred (snd (exception message args kw g)) =
        (if py_truthy (kw_get kw ''ignore'' (PBool False)) then error_occurred g else True))"
  using error_flag_when_known exception_flag_when_known by blast

lemma eval_facade:
  "on_writer name m g = (case the_writer g of Str s \<Rightarrow> (Inl AttributeError, g)
     | Inst w \<Rightarrow> (case m (w, g\<lparr>calls := calls g @ [Call name w]\<rparr>) of
            (r, (w', g')) \<Rightarrow> (r, g'\<lparr>the_writer := Inst w'\<rparr>)))"
  by (simp add: on_writer_def)

text \<open>
  On a fresh module: an error sets the flag, an ignored error does not; the same for
  an exception message, also when it raises the exception it was given.
\<close>

theorem error_flag_iff_not_ignored_witness:
  "error_occurred (snd (error ''boom'' [] [] initial_world))
   \<and> \<not> error_occurred (snd (error ''boom'' [] [(''ignore'', PBool True)] initial_world))
   \<and> error_occurred (snd (exception ''boom'' [] [(''log'', PBool False)] initial_world))
   \<and> \<not> error_occurred (snd (exception ''boom'' [] [(''ignore'', PBool True), (''raise_exception'', PExc (UserError ''E''))] initial_world))"
  using error_flag_iff_not_ignored [of "[]" "''boom''" "[]" initial_world]
    error_flag_iff_not_ignored [of "[(''ignore'', PBool True)]" "''boom''" "[]" initial_world]
    error_flag_iff_not_ignored [of "[(''log'', PBool False)]" "''boom''" "[]" initial_world]
    error_flag_iff_not_ignored [of "[(''ignore'', PBool True), (''raise_exception'', PExc (UserError ''E''))]" "''boom''" "[]" initial_world]
  by (simp add: kw_get_def initial_world_def)

text \<open>
  Claim C1 as it was stated ("for every call ... if and only if \<open>ignore\<close> is false") fails:
  \<open>kwargs.setdefault('is_error', True)\<close> keeps an \<open>is_error\<close> the caller passed, so
  \<open>error(..., ignore=True, is_error=True)\<close> sets the flag and \<open>error(..., is_error=False)\<close>
  does not; and an option \<open>_put\<close> does not know raises TypeError before the flag is set.
\<close>

theorem error_flag_counterexample:
  "\<not> error_occurred initial_world
   \<and> error_occurred (snd (error ''boom'' [] [(''ignore'', PBool True), (''is_error'', PBool True)]
                            initial_world))
   \<and> \<not> error_occurred (snd (error ''boom'' [] [(''is_error'', PBool False)] initial_world))
   \<and> \<not> error_occurred (snd (error ''boom'' [] [(''verbose'', PBool True)] initial_world))"
  by (simp add: error_def put_def Let_def kw_get_def kw_del_def
        kw_setdefault_def thenM_run mark_error_def on_writer_def initial_world_def
        w_error_occurred_def retM_def raiseM_def w_error_def err_def new_writer_obj_def emit_log_def)

section \<open>Commands the writer does not support\<close>


lemma initial_writer: "the_writer initial_world = Inst console0"
  by (simp add: initial_world_def console0_def)


section \<open>A handler that raises ValueError\<close>




section \<open>Replacing the writer closes the old one first\<close>

text \<open>
  Claim C7. Every call of \<open>set_output_writer\<close> invokes \<open>close()\<close> on the previously
  active writer exactly once, and before any method is invoked on the newly installed
  writer, whether the new writer is built from the registry by name or given as an
  object. In the trace of the call, the \<open>close\<close> of the old writer \<open>w\<close> comes first
  and is followed by nothing, or by the constructor of the new writer only; the output
  and the exit code are those \<open>close()\<close> left.
\<close>

theorem set_output_writer_closes_first:
  assumes "the_writer g = Inst w"
  shows "\<exists>g1 r g' rest.
           w_close (w, g\<lparr>calls := calls g @ [Call ''close'' w]\<rparr>) = (Inr (), (w, g1))
         \<and> set_output_writer nw args kw g = (r, g')
         \<and> calls g' = calls g @ Call ''close'' w # rest
         \<and> (rest = [] \<or> (\<exists>w2. rest = [Call ''__init__'' w2] \<and> the_writer g' = Inst w2))
         \<and> stdout g' = stdout g1 \<and> error_exit_code g' = error_exit_code g1
         \<and> (case nw of
               ByObject w2 \<Rightarrow> r = Inr () \<and> rest = [] \<and> the_writer g' = Inst w2
             | ByName n \<Rightarrow>
                 (case map_of AVAILABLE_WRITERS n of
                    None \<Rightarrow> r = Inr () \<and> rest = [] \<and> the_writer g' = Str n
                  | Some c \<Rightarrow>
                      (\<exists>e. r = Inl e \<and> rest = [] \<and> the_writer g' = Inst w)
                      \<or> (\<exists>w2. r = Inr () \<and> rest = [Call ''__init__'' w2]
                                \<and> the_writer g' = Inst w2 \<and> cls w2 = c)))"
proof -
  from w_close_run [of w "g\<lparr>calls := calls g @ [Call ''close'' w]\<rparr>"]
  obtain g1 where g1: "w_close (w, g\<lparr>calls := calls g @ [Call ''close'' w]\<rparr>) = (Inr (), (w, g1))"
    and c1: "calls g1 = calls g @ [Call ''close'' w]"
    by auto
  let ?g2 = "g1\<lparr>the_writer := Inst w\<rparr>"
  have cl: "on_writer ''close'' w_close g = (Inr (), ?g2)"
    using assms g1 by (simp add: on_writer_def)
  show ?thesis
  proof (cases nw)
    case (ByObject w2)
    have "set_output_writer nw args kw g = (Inr (), ?g2\<lparr>the_writer := Inst w2\<rparr>)"
      using ByObject cl by (simp add: set_output_writer_def thenM_run set_slot_def)
    with g1 c1 ByObject show ?thesis by simp
  next
    case (ByName n)
    show ?thesis
    proof (cases "map_of AVAILABLE_WRITERS n")
      case None
      have "set_output_writer nw args kw g = (Inr (), ?g2\<lparr>the_writer := Str n\<rparr>)"
        using ByName None cl by (simp add: set_output_writer_def thenM_run set_slot_def)
      with g1 c1 ByName None show ?thesis by simp
    next
      case (Some c)
      from construct_run [of c args kw ?g2]
      show ?thesis
      proof
        assume "\<exists>e. construct c args kw ?g2 = (Inl e, ?g2)"
        then obtain e where e: "construct c args kw ?g2 = (Inl e, ?g2)" by blast
        have "set_output_writer nw args kw g = (Inl e, ?g2)"
          using ByName Some cl e by (simp add: set_output_writer_def thenM_run bindM_run)
        with g1 c1 ByName Some show ?thesis by simp
      next
        assume "\<exists>w2. construct c args kw ?g2
                       = (Inr w2, ?g2\<lparr>calls := calls ?g2 @ [Call ''__init__'' w2]\<rparr>) \<and> cls w2 = c"
        then obtain w2 where k: "construct c args kw ?g2
                       = (Inr w2, ?g2\<lparr>calls := calls ?g2 @ [Call ''__init__'' w2]\<rparr>)"
          and cw: "cls w2 = c" by blast
        have "set_output_writer nw args kw g
                = (Inr (), ?g2\<lparr>calls := calls ?g2 @ [Call ''__init__'' w2], the_writer := Inst w2\<rparr>)"
          using ByName Some cl k
          by (simp add: set_output_writer_def thenM_run bindM_run set_slot_def)
        with g1 c1 ByName Some cw show ?thesis by simp
      qed
    qed
  qed
qed

text \<open>
  Replacing the Nagios writer of the scenario by name prints its aggregate line before
  the console writer is built; installing an object closes the console first.
\<close>

theorem set_output_writer_closes_first_witness:
  "set_output_writer (ByName ''console'') [] [] nagios_world =
     (Inr (), nagios_world\<lparr>error_exit_code := 2, the_writer := Inst console0,
        stdout := [''BARMAN CRITICAL - 1 server out of 2 has issues''],
        calls := [Call ''close'' nagios_scenario, Call ''__init__'' console0]\<rparr>)
   \<and> set_output_writer (ByObject nagios_scenario) [] [] initial_world =
     (Inr (), initial_world\<lparr>the_writer := Inst nagios_scenario,
        calls := [Call ''close'' console0]\<rparr>)"
  using set_output_writer_closes_first [OF nagios_writer, of "ByName ''console''" "[]" "[]"]
    set_output_writer_closes_first [OF initial_writer, of "ByObject nagios_scenario" "[]" "[]"]
  by (simp add: set_output_writer_def thenM_run bindM_run on_writer_def w_close_def
        nagios_close_def nagios_world_def nagios_scenario_def new_writer_obj_def scan_scenario
        initial_world_def console0_def AVAILABLE_WRITERS_def construct_def bind_args_def
        bindE_def arg_def liftE_def set_slot_def show_nat.simps digit_char_def)

section \<open>The catalog lines of show-backup\<close>



end
